theory Spec2Isabelle
  imports Main "HOL-Library.Word" "HOL-Library.AList"
begin

section \<open>The channel injector of \<open>src/core/walle_python_impl.py\<close>\<close>

text \<open>
  The class \<open>WallePythonImpl\<close> locates the APK Signing Block of a signed archive,
  decodes its id/value pairs, adds the channel pair and writes the block back.  Files
  are byte lists, Python integers are \<open>int\<close>, every \<open>raise\<close> is a value \<open>Inl e\<close>.
\<close>

subsection \<open>Bytes, errors and the \<open>struct\<close> module\<close>

type_synonym byte = "8 word"
type_synonym bytes = "byte list"

text \<open>
  The module raises one exception class of its own, \<open>SignatureNotFoundException\<close>, at six
  places that differ in their message; \<open>reason\<close> names the place.
\<close>

datatype reason =
    NoEOCD              \<comment> \<open>line 62: no ZIP EOCD record found\<close>
  | ApkTooSmall         \<comment> \<open>line 89: central directory offset below 32\<close>
  | BadMagic            \<comment> \<open>line 102: footer magic does not match\<close>
  | OffsetOutOfRange    \<comment> \<open>line 112: negative block offset\<close>
  | SizeMismatch        \<comment> \<open>line 121: header and footer sizes differ\<close>
  | NoV2Block           \<comment> \<open>line 241: no APK Signature Scheme v2 block\<close>

datatype error =
    SignatureNotFoundException reason
  | StructError         \<comment> \<open>\<open>struct.error\<close>: wrong buffer length, number out of range\<close>
  | OSError             \<comment> \<open>seek to a negative position\<close>
  | FileNotFoundError   \<comment> \<open>\<open>open\<close> or \<open>shutil.copy2\<close> on a missing path\<close>
  | UnicodeDecodeError
  | JSONDecodeError
  | LibraryError        \<comment> \<open>any other exception of \<open>json\<close> or the codecs\<close>
  | AttributeError      \<comment> \<open>\<open>.get\<close> on a JSON value that is not a dict\<close>

definition WALLE_CHANNEL_BLOCK_ID :: int where
  "WALLE_CHANNEL_BLOCK_ID = 0x71777777"

definition APK_SIG_BLOCK_MAGIC_LO :: int where
  "APK_SIG_BLOCK_MAGIC_LO = 0x20676953204b5041"

definition APK_SIG_BLOCK_MAGIC_HI :: int where
  "APK_SIG_BLOCK_MAGIC_HI = 0x3234206b636f6c42"

definition APK_SIGNATURE_SCHEME_V2_BLOCK_ID :: int where
  "APK_SIGNATURE_SCHEME_V2_BLOCK_ID = 0x7109871a"

definition VERITY_PADDING_BLOCK_ID :: int where
  "VERITY_PADDING_BLOCK_ID = 0x42726577"

definition APK_SIG_BLOCK_MIN_SIZE :: int where
  "APK_SIG_BLOCK_MIN_SIZE = 32"

text \<open>The value of a little-endian byte string, and the \<open>k\<close> low bytes of a number.\<close>

fun le_int :: "bytes \<Rightarrow> int" where
  "le_int [] = 0"
| "le_int (b # bs) = uint b + 256 * le_int bs"

fun le_bytes :: "nat \<Rightarrow> int \<Rightarrow> bytes" where
  "le_bytes 0 n = []"
| "le_bytes (Suc k) n = word_of_int n # le_bytes k (n div 256)"

text \<open>
  \<open>struct.unpack('<Q' | '<I' | '<H', b)[0]\<close> with \<open>k = 8 | 4 | 2\<close>: \<open>struct.error\<close> unless
  the buffer has exactly \<open>k\<close> bytes.  \<open>struct.pack\<close>: \<open>struct.error\<close> unless the number
  fits \<open>k\<close> unsigned bytes.
\<close>

definition unpack_le :: "nat \<Rightarrow> bytes \<Rightarrow> error + int" where
  "unpack_le k b = (if length b = k then Inr (le_int b) else Inl StructError)"

definition pack_le :: "nat \<Rightarrow> int \<Rightarrow> error + bytes" where
  "pack_le k n = (if 0 \<le> n \<and> n < 256 ^ k then Inr (le_bytes k n) else Inl StructError)"

text \<open>
  Python's slice \<open>xs[i:j]\<close>: a negative index counts from the end, both indices are
  clamped to the sequence, and an empty range gives the empty sequence.
\<close>

definition py_index :: "int \<Rightarrow> int \<Rightarrow> int" where
  "py_index n i = (if i < 0 then max (n + i) 0 else min i n)"

definition py_slice :: "'a list \<Rightarrow> int \<Rightarrow> int \<Rightarrow> 'a list" where
  "py_slice xs i j =
     (let n = int (length xs); a = py_index n i; b = py_index n j
      in take (nat (b - a)) (drop (nat a) xs))"

text \<open>
  \<open>f.seek(pos); f.read(k)\<close> on a file opened in binary mode: a negative position is an
  \<open>OSError\<close>, a position at or past the end reads nothing, a read across the end is short.
  Every call of the source has \<open>0 \<le> k\<close>.
\<close>

definition file_read :: "bytes \<Rightarrow> int \<Rightarrow> int \<Rightarrow> error + bytes" where
  "file_read f pos k =
     (if pos < 0 then Inl OSError else Inr (take (nat k) (drop (nat pos) f)))"

text \<open>
  \<open>f.seek(pos); f.write(data)\<close> with \<open>0 \<le> pos\<close>: the bytes replace what was there, the
  file grows when the write passes the end, and a gap before \<open>pos\<close> is filled with zeros.
\<close>

definition file_write :: "bytes \<Rightarrow> int \<Rightarrow> bytes \<Rightarrow> bytes" where
  "file_write f pos data =
     take (nat pos) f @ replicate (nat pos - length f) 0 @ data
       @ drop (nat pos + length data) f"

text \<open>
  Sequencing with exceptions: the first \<open>Inl e\<close> ends the computation, as a \<open>raise\<close>
  leaves the enclosing block.
\<close>

definition bindE :: "error + 'a \<Rightarrow> ('a \<Rightarrow> error + 'b) \<Rightarrow> error + 'b" where
  "bindE m k = (case m of Inl e \<Rightarrow> Inl e | Inr x \<Rightarrow> k x)"

lemma bindE_Inl [simp]: "bindE (Inl e) k = Inl e"
  by (simp add: bindE_def)

lemma bindE_Inr [simp]: "bindE (Inr x) k = k x"
  by (simp add: bindE_def)

lemma bindE_cong [fundef_cong]:
  "m = m' \<Longrightarrow> (\<And>x. m' = Inr x \<Longrightarrow> k x = k' x) \<Longrightarrow> bindE m k = bindE m' k'"
  by (cases m') (simp_all add: bindE_def)

subsection \<open>Locating the EOCD record and the central directory\<close>

text \<open>
  The \<open>for\<close> loop of \<open>_get_comment_length\<close> over the candidates
  \<open>range(0, max_comment_length + 1)\<close>; falling out of the loop reaches the \<open>raise\<close>.
\<close>

fun scan_eocd :: "bytes \<Rightarrow> int \<Rightarrow> int list \<Rightarrow> error + int" where
  "scan_eocd f file_size [] = Inl (SignatureNotFoundException NoEOCD)"
| "scan_eocd f file_size (expected_comment_length # rest) =
     (let eocd_pos = file_size - 22 - expected_comment_length in
      bindE (file_read f eocd_pos 4) (\<lambda>b.
      bindE (unpack_le 4 b) (\<lambda>sig.
        if sig = 0x06054b50 then
          bindE (file_read f (eocd_pos + 20) 2) (\<lambda>b2.
          bindE (unpack_le 2 b2) (\<lambda>actual_comment_length.
            if actual_comment_length = expected_comment_length
            then Inr actual_comment_length
            else scan_eocd f file_size rest))
        else scan_eocd f file_size rest)))"

definition get_comment_length :: "bytes \<Rightarrow> error + int" where
  "get_comment_length f =
     (let file_size = int (length f);
          max_comment_length = min (file_size - 22) 65535
      in scan_eocd f file_size [0..max_comment_length])"

definition find_central_dir_start_offset :: "bytes \<Rightarrow> int \<Rightarrow> error + int" where
  "find_central_dir_start_offset f comment_length =
     (let file_size = int (length f) in
      bindE (file_read f (file_size - comment_length - 6) 4) (\<lambda>b. unpack_le 4 b))"

subsection \<open>Locating the APK Signing Block\<close>

definition find_apk_signing_block :: "bytes \<Rightarrow> int \<Rightarrow> error + (bytes \<times> int)" where
  "find_apk_signing_block f central_dir_offset =
     (if central_dir_offset < APK_SIG_BLOCK_MIN_SIZE
      then Inl (SignatureNotFoundException ApkTooSmall)
      else
        bindE (file_read f (central_dir_offset - 24) 24) (\<lambda>footer.
        bindE (unpack_le 8 (py_slice footer 8 16)) (\<lambda>footer_magic_lo.
        bindE (unpack_le 8 (py_slice footer 16 24)) (\<lambda>footer_magic_hi.
          if footer_magic_lo \<noteq> APK_SIG_BLOCK_MAGIC_LO \<or> footer_magic_hi \<noteq> APK_SIG_BLOCK_MAGIC_HI
          then Inl (SignatureNotFoundException BadMagic)
          else
            bindE (unpack_le 8 (py_slice footer 0 8)) (\<lambda>footer_size.
            let apk_signing_block_size = footer_size + 8;
                apk_signing_block_offset = central_dir_offset - apk_signing_block_size
            in
              if apk_signing_block_offset < 0
              then Inl (SignatureNotFoundException OffsetOutOfRange)
              else
                bindE (file_read f apk_signing_block_offset apk_signing_block_size)
                  (\<lambda>apk_signing_block.
                bindE (unpack_le 8 (py_slice apk_signing_block 0 8)) (\<lambda>header_size.
                  if header_size \<noteq> footer_size
                  then Inl (SignatureNotFoundException SizeMismatch)
                  else Inr (apk_signing_block, apk_signing_block_offset))))))))"

subsection \<open>The pair codec\<close>

text \<open>
  A Python \<open>dict\<close> keeps its keys in insertion order, and assigning to a key that is
  present keeps the key's place: an association list with \<open>AList.update\<close>,
  \<open>AList.delete\<close> and \<open>map_of\<close>.
\<close>

type_synonym id_values = "(int \<times> bytes) list"

lemma le_int_nonneg: "0 \<le> le_int b"
  by (induction b) auto

lemma unpack_le_nonneg: "unpack_le k b = Inr n \<Longrightarrow> 0 \<le> n"
  by (auto simp: unpack_le_def le_int_nonneg split: if_splits)

text \<open>The \<open>while pos < end\<close> loop of \<open>_find_id_values\<close>.\<close>

function find_id_loop :: "bytes \<Rightarrow> int \<Rightarrow> int \<Rightarrow> id_values \<Rightarrow> error + id_values" where
  "find_id_loop apk_signing_block end pos id_values =
     (if pos < end then
        bindE (unpack_le 8 (py_slice apk_signing_block pos (pos + 8))) (\<lambda>entry_size.
        bindE (unpack_le 4 (py_slice apk_signing_block (pos + 8) (pos + 8 + 4))) (\<lambda>entry_id.
          let value_size = entry_size - 4;
              entry_value = py_slice apk_signing_block (pos + 8 + 4) (pos + 8 + 4 + value_size)
          in find_id_loop apk_signing_block end (pos + 8 + 4 + value_size)
               (AList.update entry_id entry_value id_values)))
      else Inr id_values)"
  by pat_completeness auto
termination
proof (relation "measure (\<lambda>(b, e, p, d). nat (e - p))", goal_cases)
  case 1
  show ?case by simp
next
  case (2 blk e pos d entry_size entry_id value_size entry_value)
  then have "0 \<le> entry_size"
    using unpack_le_nonneg by blast
  with 2 show ?case by simp
qed

definition find_id_values :: "bytes \<Rightarrow> error + id_values" where
  "find_id_values apk_signing_block =
     find_id_loop apk_signing_block (int (length apk_signing_block) - 24) 8 []"

text \<open>The \<open>for\<close> loop of \<open>_create_apk_signing_block\<close> that builds \<open>pairs_data\<close>.\<close>

fun encode_pairs :: "id_values \<Rightarrow> bytes \<Rightarrow> error + bytes" where
  "encode_pairs [] pairs_data = Inr pairs_data"
| "encode_pairs ((entry_id, entry_value) # rest) pairs_data =
     (let entry_size = 4 + int (length entry_value) in
      bindE (pack_le 8 entry_size) (\<lambda>s.
      bindE (pack_le 4 entry_id) (\<lambda>i.
      encode_pairs rest (pairs_data @ s @ i @ entry_value))))"

definition create_apk_signing_block :: "id_values \<Rightarrow> error + bytes" where
  "create_apk_signing_block id_values =
     bindE (encode_pairs id_values []) (\<lambda>pairs_data.
     let total_size = 8 + int (length pairs_data) + 24 in
     bindE (pack_le 8 (total_size - 8)) (\<lambda>size1.
     bindE (pack_le 8 (total_size - 8)) (\<lambda>size2.
     bindE (pack_le 8 APK_SIG_BLOCK_MAGIC_LO) (\<lambda>lo.
     bindE (pack_le 8 APK_SIG_BLOCK_MAGIC_HI) (\<lambda>hi.
     Inr (size1 @ pairs_data @ size2 @ lo @ hi))))))"

subsection \<open>The channel value\<close>

text \<open>
  \<open>create_channel_info\<close> and \<open>parse_channel_info\<close> call Python's \<open>json\<close> module and the
  UTF-8 codec, which are not part of this repository: they are the fields of \<open>pylib\<close>,
  over a type \<open>'s\<close> of Python strings and a type \<open>'v\<close> of Python objects.
\<close>

record ('s, 'v) pylib =
  json_dumps :: "'v \<Rightarrow> error + 's"           \<comment> \<open>\<open>json.dumps(x, ensure_ascii=False)\<close>\<close>
  json_loads :: "'s \<Rightarrow> error + 'v"           \<comment> \<open>\<open>json.loads(s)\<close>\<close>
  str_encode :: "'s \<Rightarrow> error + bytes"        \<comment> \<open>\<open>s.encode('utf-8')\<close>\<close>
  bytes_decode :: "bytes \<Rightarrow> error + 's"      \<comment> \<open>\<open>b.decode('utf-8')\<close>\<close>
  bytes_decode_ignore :: "bytes \<Rightarrow> 's"       \<comment> \<open>\<open>b.decode('utf-8', errors='ignore')\<close>\<close>
  channel_dict :: "'v \<Rightarrow> 'v"                 \<comment> \<open>the dict \<open>{'channel': x}\<close>\<close>
  str_obj :: "'s \<Rightarrow> 'v"                      \<comment> \<open>a string as an object\<close>
  get_channel_key :: "'v \<Rightarrow> error + 'v"      \<comment> \<open>\<open>x.get('channel', None)\<close>\<close>
  none_obj :: "'v"                            \<comment> \<open>\<open>None\<close>\<close>

definition create_channel_info :: "('s, 'v) pylib \<Rightarrow> 'v \<Rightarrow> error + 's" where
  "create_channel_info L channel = json_dumps L (channel_dict L channel)"

definition parse_channel_info :: "('s, 'v) pylib \<Rightarrow> bytes \<Rightarrow> error + 'v" where
  "parse_channel_info L channel_value =
     (case bindE (bytes_decode L channel_value) (json_loads L) of
        Inl e \<Rightarrow>
          if e = UnicodeDecodeError \<or> e = JSONDecodeError
          then Inr (channel_dict L (str_obj L (bytes_decode_ignore L channel_value)))
          else Inl e
      | Inr channel_info \<Rightarrow> Inr channel_info)"

subsection \<open>Files\<close>

type_synonym path = string
type_synonym fs = "path \<Rightarrow> bytes option"

definition open_file :: "fs \<Rightarrow> path \<Rightarrow> error + bytes" where
  "open_file files p = (case files p of None \<Rightarrow> Inl FileNotFoundError | Some f \<Rightarrow> Inr f)"

definition copy2 :: "fs \<Rightarrow> path \<Rightarrow> path \<Rightarrow> error + fs" where
  "copy2 files src dst =
     (case files src of None \<Rightarrow> Inl FileNotFoundError | Some f \<Rightarrow> Inr (files(dst \<mapsto> f)))"

subsection \<open>Injecting and reading the channel\<close>

text \<open>
  Steps 1 to 4 of \<open>inject_channel\<close> and of \<open>get_channel\<close> are the same four calls on the
  same unchanged file: the comment length, the central directory offset, the signing
  block with its offset, and the decoded pairs.
\<close>

definition parse_apk :: "bytes \<Rightarrow> error + (int \<times> int \<times> bytes \<times> int \<times> id_values)" where
  "parse_apk f =
     bindE (get_comment_length f) (\<lambda>comment_length.
     bindE (find_central_dir_start_offset f comment_length) (\<lambda>central_dir_offset.
     bindE (find_apk_signing_block f central_dir_offset)
       (\<lambda>(apk_signing_block, apk_signing_block_offset).
     bindE (find_id_values apk_signing_block) (\<lambda>id_values.
     Inr (comment_length, central_dir_offset, apk_signing_block,
          apk_signing_block_offset, id_values)))))"

text \<open>Steps 5 to 9 of \<open>inject_channel\<close>: from the decoded pairs to the new block.\<close>

definition new_signing_block :: "('s, 'v) pylib \<Rightarrow> id_values \<Rightarrow> 'v \<Rightarrow> error + bytes" where
  "new_signing_block L id_values channel =
     (if APK_SIGNATURE_SCHEME_V2_BLOCK_ID \<notin> fst ` set id_values
      then Inl (SignatureNotFoundException NoV2Block)
      else
        let need_padding = VERITY_PADDING_BLOCK_ID \<in> fst ` set id_values;
            id_values1 = (if need_padding then AList.delete VERITY_PADDING_BLOCK_ID id_values
                          else id_values)
        in
          bindE (create_channel_info L channel) (\<lambda>channel_json.
          bindE (str_encode L channel_json) (\<lambda>channel_bytes.
          create_apk_signing_block
            (AList.update WALLE_CHANNEL_BLOCK_ID channel_bytes id_values1))))"

text \<open>
  Step 10, the \<open>with open(target_apk, 'r+b')\<close> block.  The file is closed on every way
  out, so what was written before an exception stays in the file.
\<close>

definition write_block :: "bytes \<Rightarrow> int \<Rightarrow> int \<Rightarrow> int \<Rightarrow> bytes \<Rightarrow> (error + unit) \<times> bytes" where
  "write_block f comment_length central_dir_offset apk_signing_block_offset new_apk_signing_block =
     (let central_dir_data = drop (nat central_dir_offset) f;
          f1 = file_write f apk_signing_block_offset new_apk_signing_block;
          pos1 = apk_signing_block_offset + int (length new_apk_signing_block);
          f2 = file_write f1 pos1 central_dir_data;
          pos2 = pos1 + int (length central_dir_data);
          f3 = take (nat pos2) f2;
          new_central_dir_offset = apk_signing_block_offset + int (length new_apk_signing_block);
          field_pos = int (length f3) - comment_length - 6
      in
        if field_pos < 0 then (Inl OSError, f3)
        else
          (case pack_le 4 new_central_dir_offset of
             Inl e \<Rightarrow> (Inl e, f3)
           | Inr b \<Rightarrow> (Inr (), file_write f3 field_pos b)))"

text \<open>The body of the \<open>try\<close> of \<open>inject_channel\<close>, with the files it leaves.\<close>

definition inject_body ::
  "('s, 'v) pylib \<Rightarrow> fs \<Rightarrow> path \<Rightarrow> path \<Rightarrow> 'v \<Rightarrow> (error + unit) \<times> fs" where
  "inject_body L files source_apk target_apk channel =
     (case (if source_apk \<noteq> target_apk then copy2 files source_apk target_apk else Inr files) of
        Inl e \<Rightarrow> (Inl e, files)
      | Inr files1 \<Rightarrow>
          (case bindE (open_file files1 target_apk) (\<lambda>f.
                bindE (parse_apk f)
                  (\<lambda>(comment_length, central_dir_offset, apk_signing_block,
                      apk_signing_block_offset, id_values).
                bindE (new_signing_block L id_values channel) (\<lambda>new_apk_signing_block.
                Inr (f, comment_length, central_dir_offset, apk_signing_block_offset,
                     new_apk_signing_block)))) of
             Inl e \<Rightarrow> (Inl e, files1)
           | Inr (f, comment_length, central_dir_offset, apk_signing_block_offset,
                  new_apk_signing_block) \<Rightarrow>
               (case write_block f comment_length central_dir_offset apk_signing_block_offset
                       new_apk_signing_block of
                  (r, f') \<Rightarrow> (r, files1(target_apk \<mapsto> f')))))"

text \<open>\<open>inject_channel\<close>: \<open>except Exception\<close> turns every error into \<open>False\<close>.\<close>

definition inject_channel ::
  "('s, 'v) pylib \<Rightarrow> fs \<Rightarrow> path \<Rightarrow> path \<Rightarrow> 'v \<Rightarrow> bool \<times> fs" where
  "inject_channel L files source_apk target_apk channel =
     (case inject_body L files source_apk target_apk channel of
        (Inl e, files') \<Rightarrow> (False, files')
      | (Inr u, files') \<Rightarrow> (True, files'))"

text \<open>The body of the \<open>try\<close> of \<open>get_channel\<close>, and \<open>get_channel\<close> with its \<open>except\<close>.\<close>

definition get_channel_body :: "('s, 'v) pylib \<Rightarrow> fs \<Rightarrow> path \<Rightarrow> error + 'v" where
  "get_channel_body L files apk_path =
     bindE (open_file files apk_path) (\<lambda>f.
     bindE (parse_apk f)
       (\<lambda>(comment_length, central_dir_offset, apk_signing_block,
           apk_signing_block_offset, id_values).
        case map_of id_values WALLE_CHANNEL_BLOCK_ID of
          Some channel_value \<Rightarrow>
            bindE (parse_channel_info L channel_value) (\<lambda>channel_info.
            get_channel_key L channel_info)
        | None \<Rightarrow> Inr (none_obj L)))"

definition get_channel :: "('s, 'v) pylib \<Rightarrow> fs \<Rightarrow> path \<Rightarrow> 'v" where
  "get_channel L files apk_path =
     (case get_channel_body L files apk_path of
        Inl e \<Rightarrow> none_obj L
      | Inr channel \<Rightarrow> channel)"

subsection \<open>Notions used in the statements\<close>

text \<open>
  Candidate \<open>c\<close> passes both tests of the EOCD scan: the four bytes at
  \<open>file size - 22 - c\<close> are the signature, and the two bytes 20 further on are \<open>c\<close>.
\<close>

definition eocd_at :: "bytes \<Rightarrow> int \<Rightarrow> bool" where
  "eocd_at f c =
     (let p = int (length f) - 22 - c
      in le_int (take 4 (drop (nat p) f)) = 0x06054b50 \<and>
         le_int (take 2 (drop (nat (p + 20)) f)) = c)"

text \<open>The 24 bytes that end at the central directory, and the test of their magic.\<close>

definition footer_of :: "bytes \<Rightarrow> int \<Rightarrow> bytes" where
  "footer_of f cd = take 24 (drop (nat (cd - 24)) f)"

definition magic_ok :: "bytes \<Rightarrow> bool" where
  "magic_ok footer =
     (le_int (take 8 (drop 8 footer)) = APK_SIG_BLOCK_MAGIC_LO \<and>
      le_int (take 8 (drop 16 footer)) = APK_SIG_BLOCK_MAGIC_HI)"

text \<open>What step 10 leaves before the offset field is patched.\<close>

definition spliced :: "bytes \<Rightarrow> int \<Rightarrow> int \<Rightarrow> bytes \<Rightarrow> bytes" where
  "spliced f cd off nb = take (nat off) f @ nb @ drop (nat cd) f"

text \<open>The bytes of one pair and of a list of pairs, and the pairs that can be packed.\<close>

definition entry_bytes :: "int \<times> bytes \<Rightarrow> bytes" where
  "entry_bytes p = le_bytes 8 (4 + int (length (snd p))) @ le_bytes 4 (fst p) @ snd p"

definition pairs_bytes :: "id_values \<Rightarrow> bytes" where
  "pairs_bytes d = concat (map entry_bytes d)"

definition packable :: "int \<times> bytes \<Rightarrow> bool" where
  "packable p = (0 \<le> fst p \<and> fst p < 2 ^ 32 \<and> 4 + int (length (snd p)) < 2 ^ 64)"

subsection \<open>Example archives\<close>

text \<open>An EOCD record whose 22-byte comment begins with the EOCD signature.\<close>

definition eocd_in_comment :: bytes where
  "eocd_in_comment = [80, 75, 5, 6, 0, 0, 0, 0, 0, 0, 0, 0, 0, 0, 0, 0, 0, 0, 0, 0, 22, 0, 80, 75, 5, 6, 0, 0, 0, 0, 0, 0, 0, 0, 0, 0, 0, 0, 0, 0, 0, 0, 1, 0]"

text \<open>
  A signing block with the v2 pair (value 1, 2), no central directory entries, and an
  EOCD record without comment: 68 bytes, central directory offset 46.
\<close>

definition signed_apk :: bytes where
  "signed_apk = [38, 0, 0, 0, 0, 0, 0, 0, 6, 0, 0, 0, 0, 0, 0, 0, 26, 135, 9, 113, 1, 2, 38, 0, 0, 0, 0, 0, 0, 0, 65, 80, 75, 32, 83, 105, 103, 32, 66, 108, 111, 99, 107, 32, 52, 50, 80, 75, 5, 6, 0, 0, 0, 0, 0, 0, 0, 0, 0, 0, 0, 0, 46, 0, 0, 0, 0, 0]"

text \<open>Eight bytes and a footer that declares 1000 bytes.\<close>

definition oversized_footer :: bytes where
  "oversized_footer = [0, 0, 0, 0, 0, 0, 0, 0, 232, 3, 0, 0, 0, 0, 0, 0, 65, 80, 75, 32, 83, 105, 103, 32, 66, 108, 111, 99, 107, 32, 52, 50]"

text \<open>The block of \<open>signed_apk\<close> with 99 in its leading size field.\<close>

definition mismatched_block :: bytes where
  "mismatched_block = [99, 0, 0, 0, 0, 0, 0, 0, 6, 0, 0, 0, 0, 0, 0, 0, 26, 135, 9, 113, 1, 2, 38, 0, 0, 0, 0, 0, 0, 0, 65, 80, 75, 32, 83, 105, 103, 32, 66, 108, 111, 99, 107, 32, 52, 50]"

text \<open>
  A signing block of 46 bytes whose only entry, with id 5 and the value 1, 2, declares
  a length of 100.
\<close>

definition overrun_block :: bytes where
  "overrun_block = [38, 0, 0, 0, 0, 0, 0, 0, 100, 0, 0, 0, 0, 0, 0, 0, 5, 0, 0, 0, 1, 2, 38, 0, 0, 0, 0, 0, 0, 0, 65, 80, 75, 32, 83, 105, 103, 32, 66, 108, 111, 99, 107, 32, 52, 50]"

text \<open>
  An instance of \<open>pylib\<close> for the examples: what \<open>json\<close> and the UTF-8 codec do with a
  channel name of printable ASCII characters other than the quote and the backslash.
  \<open>json.dumps({'channel': s}, ensure_ascii=False)\<close> is then \<open>{"channel": "s"}\<close>, one byte
  per character.  The instance refuses every other input; no example reaches one.
\<close>

datatype pyobj = PyNone | PyStr string | PyDict "(string \<times> pyobj) list"

definition plain :: "string \<Rightarrow> bool" where
  "plain s = (\<forall>c \<in> set s. (32::nat) \<le> of_char c \<and> of_char c < (127::nat) \<and>
                c \<noteq> CHR 0x22 \<and> c \<noteq> CHR 0x5C)"

definition json_prefix :: string where
  "json_prefix = [CHR 0x7B, CHR 0x22] @ ''channel'' @ [CHR 0x22] @ '': '' @ [CHR 0x22]"

definition json_suffix :: string where
  "json_suffix = [CHR 0x22, CHR 0x7D]"

definition plain_lib :: "(string, pyobj) pylib" where
  "plain_lib = \<lparr>
     json_dumps = (\<lambda>v. case v of
         PyDict [(k, PyStr s)] \<Rightarrow>
           if k = ''channel'' \<and> plain s then Inr (json_prefix @ s @ json_suffix)
           else Inl LibraryError
       | _ \<Rightarrow> Inl LibraryError),
     json_loads = (\<lambda>s.
         let mid = take (length s - 15) (drop 13 s)
         in if 15 \<le> length s \<and> take 13 s = json_prefix \<and>
               drop (length s - 2) s = json_suffix \<and> plain mid
            then Inr (PyDict [(''channel'', PyStr mid)])
            else Inl JSONDecodeError),
     str_encode = (\<lambda>s. Inr (map (\<lambda>c. of_nat (of_char c)) s)),
     bytes_decode = (\<lambda>b. if \<forall>x \<in> set b. x < 128 then Inr (map (\<lambda>x. char_of (unat x)) b)
                          else Inl UnicodeDecodeError),
     bytes_decode_ignore = (\<lambda>b. map (\<lambda>x. char_of (unat x)) (filter (\<lambda>x. x < 128) b)),
     channel_dict = (\<lambda>v. PyDict [(''channel'', v)]),
     str_obj = PyStr,
     get_channel_key = (\<lambda>v. case v of
         PyDict d \<Rightarrow> Inr (case map_of d ''channel'' of None \<Rightarrow> PyNone | Some x \<Rightarrow> x)
       | _ \<Rightarrow> Inl AttributeError),
     none_obj = PyNone \<rparr>"

text \<open>
  Variants of \<open>signed_apk\<close>: the only pair under id 5 instead of the v2 id; a wrong
  first magic byte; 99 in the leading size field.
\<close>

definition unsigned_apk :: bytes where
  "unsigned_apk = signed_apk[16 := 5, 17 := 0, 18 := 0, 19 := 0]"

definition bad_magic_apk :: bytes where
  "bad_magic_apk = signed_apk[30 := 0]"

definition mismatched_apk :: bytes where
  "mismatched_apk = signed_apk[0 := 99]"

definition one_file :: "path \<Rightarrow> bytes \<Rightarrow> fs" where
  "one_file p f = Map.empty(p \<mapsto> f)"

text \<open>
  The block and the archive that injecting the channel \<open>x\<close> into \<open>signed_apk\<close> gives:
  the channel pair holds the 16 bytes of \<open>{"channel": "x"}\<close>.
\<close>

definition injected_block :: bytes where
  "injected_block = [66, 0, 0, 0, 0, 0, 0, 0, 6, 0, 0, 0, 0, 0, 0, 0, 26, 135, 9, 113, 1, 2, 20, 0, 0, 0, 0, 0, 0, 0, 119, 119, 119, 113, 123, 34, 99, 104, 97, 110, 110, 101, 108, 34, 58, 32, 34, 120, 34, 125, 66, 0, 0, 0, 0, 0, 0, 0, 65, 80, 75, 32, 83, 105, 103, 32, 66, 108, 111, 99, 107, 32, 52, 50]"

definition injected_apk :: bytes where
  "injected_apk = [66, 0, 0, 0, 0, 0, 0, 0, 6, 0, 0, 0, 0, 0, 0, 0, 26, 135, 9, 113, 1, 2, 20, 0, 0, 0, 0, 0, 0, 0, 119, 119, 119, 113, 123, 34, 99, 104, 97, 110, 110, 101, 108, 34, 58, 32, 34, 120, 34, 125, 66, 0, 0, 0, 0, 0, 0, 0, 65, 80, 75, 32, 83, 105, 103, 32, 66, 108, 111, 99, 107, 32, 52, 50, 80, 75, 5, 6, 0, 0, 0, 0, 0, 0, 0, 0, 0, 0, 0, 0, 74, 0, 0, 0, 0, 0]"

text \<open>
  An archive whose block holds a padding pair of four zero bytes and the v2 pair:
  84 bytes, central directory offset 62.
\<close>

definition padded_apk :: bytes where
  "padded_apk = [54, 0, 0, 0, 0, 0, 0, 0, 8, 0, 0, 0, 0, 0, 0, 0, 119, 101, 114, 66, 0, 0, 0, 0, 6, 0, 0, 0, 0, 0, 0, 0, 26, 135, 9, 113, 1, 2, 54, 0, 0, 0, 0, 0, 0, 0, 65, 80, 75, 32, 83, 105, 103, 32, 66, 108, 111, 99, 107, 32, 52, 50, 80, 75, 5, 6, 0, 0, 0, 0, 0, 0, 0, 0, 0, 0, 0, 0, 62, 0, 0, 0, 0, 0]"

text \<open>
  An archive of 269 bytes: 188 zero bytes, the block of \<open>signed_apk\<close> at offset 188, an
  EOCD record at 234 whose central directory size field holds the bytes
  \<open>00 50 4b 05\<close>, and a comment of 13 zero bytes.
\<close>

definition ambiguous_apk :: bytes where
  "ambiguous_apk = replicate 188 0 @ [38, 0, 0, 0, 0, 0, 0, 0, 6, 0, 0, 0, 0, 0, 0, 0, 26, 135, 9, 113, 1, 2, 38, 0, 0, 0, 0, 0, 0, 0, 65, 80, 75, 32, 83, 105, 103, 32, 66, 108, 111, 99, 107, 32, 52, 50, 80, 75, 5, 6, 0, 0, 0, 0, 0, 0, 0, 0, 0, 80, 75, 5, 234, 0, 0, 0, 13, 0, 0, 0, 0, 0, 0, 0, 0, 0, 0, 0, 0, 0, 0]"

text \<open>\<open>signed_apk\<close> with the 20-byte comment \<open>channel build 00001 \<close>.\<close>

definition commented_apk :: bytes where
  "commented_apk = [38, 0, 0, 0, 0, 0, 0, 0, 6, 0, 0, 0, 0, 0, 0, 0, 26, 135, 9, 113, 1, 2, 38, 0, 0, 0, 0, 0, 0, 0, 65, 80, 75, 32, 83, 105, 103, 32, 66, 108, 111, 99, 107, 32, 52, 50, 80, 75, 5, 6, 0, 0, 0, 0, 0, 0, 0, 0, 0, 0, 0, 0, 46, 0, 0, 0, 20, 0, 99, 104, 97, 110, 110, 101, 108, 32, 98, 117, 105, 108, 100, 32, 48, 48, 48, 48, 49, 32]"

text \<open>
  A file of 74 bytes in which the EOCD record comes first and the signing block, with
  the v2 value 1, ..., 8, is its 52-byte comment: the central directory offset 74 is
  the end of the file.  Injecting the channel \<open>x\<close> builds \<open>overlapping_new_block\<close>.
\<close>

definition overlapping_apk :: bytes where
  "overlapping_apk = [80, 75, 5, 6, 0, 0, 0, 0, 0, 0, 0, 0, 0, 0, 0, 0, 74, 0, 0, 0, 52, 0, 44, 0, 0, 0, 0, 0, 0, 0, 12, 0, 0, 0, 0, 0, 0, 0, 26, 135, 9, 113, 1, 2, 3, 4, 5, 6, 7, 8, 44, 0, 0, 0, 0, 0, 0, 0, 65, 80, 75, 32, 83, 105, 103, 32, 66, 108, 111, 99, 107, 32, 52, 50]"

definition overlapping_new_block :: bytes where
  "overlapping_new_block = [72, 0, 0, 0, 0, 0, 0, 0, 12, 0, 0, 0, 0, 0, 0, 0, 26, 135, 9, 113, 1, 2, 3, 4, 5, 6, 7, 8, 20, 0, 0, 0, 0, 0, 0, 0, 119, 119, 119, 113, 123, 34, 99, 104, 97, 110, 110, 101, 108, 34, 58, 32, 34, 120, 34, 125, 72, 0, 0, 0, 0, 0, 0, 0, 65, 80, 75, 32, 83, 105, 103, 32, 66, 108, 111, 99, 107, 32, 52, 50]"

section \<open>Properties\<close>

subsection \<open>Bytes and slices\<close>

lemma le_int_bound: "le_int b < 256 ^ length b"
proof (induction b)
  case Nil
  show ?case by simp
next
  case (Cons x xs)
  have "uint x < 256" using uint_lt2p [of x] by simp
  with Cons show ?case by simp
qed

lemma length_le_bytes [simp]: "length (le_bytes k n) = k"
  by (induction k arbitrary: n) auto

lemma le_int_le_bytes: "0 \<le> n \<Longrightarrow> n < 256 ^ k \<Longrightarrow> le_int (le_bytes k n) = n"
proof (induction k arbitrary: n)
  case 0
  then show ?case by simp
next
  case (Suc k)
  have d: "0 \<le> n div 256" "n div 256 < 256 ^ k"
    using Suc.prems by auto
  have "uint (word_of_int n :: byte) = n mod 256"
    by (simp add: uint_word_of_int_eq take_bit_eq_mod)
  with Suc.IH [OF d] show ?case by simp
qed

lemma unpack_pack: "pack_le k n = Inr b \<Longrightarrow> unpack_le k b = Inr n"
  by (auto simp: pack_le_def unpack_le_def le_int_le_bytes split: if_splits)

lemma pack_le_length: "pack_le k n = Inr b \<Longrightarrow> length b = k"
  by (auto simp: pack_le_def split: if_splits)

lemma py_slice_nonneg:
  "0 \<le> i \<Longrightarrow> 0 \<le> j \<Longrightarrow> py_slice xs i j = take (nat (j - i)) (drop (nat i) xs)"
  by (auto simp: py_slice_def py_index_def Let_def min_def)

subsection \<open>The EOCD scan\<close>

lemma scan_eocd_step:
  assumes "0 \<le> c" "c \<le> int (length f) - 22"
  shows "scan_eocd f (int (length f)) (c # cs) =
           (if eocd_at f c then Inr c else scan_eocd f (int (length f)) cs)"
proof -
  let ?p = "int (length f) - 22 - c"
  have p: "0 \<le> ?p" using assms by simp
  have l4: "length (take 4 (drop (nat ?p) f)) = 4" using assms by simp
  let ?q = "int (length f) - c - 2"
  have l2: "length (take 2 (drop (nat ?q) f)) = 2" using assms by simp
  have r4: "file_read f ?p 4 = Inr (take 4 (drop (nat ?p) f))"
    using p by (simp add: file_read_def)
  have r2: "file_read f ?q 2 = Inr (take 2 (drop (nat ?q) f))"
    using assms by (simp add: file_read_def)
  show ?thesis
    by (simp add: Let_def r4 r2 unpack_le_def l4 l2 eocd_at_def del: length_take length_drop)
qed

lemma scan_eocd_upto_Inr:
  assumes "0 \<le> a" "m \<le> int (length f) - 22"
  shows "scan_eocd f (int (length f)) [a..m] = Inr c \<longleftrightarrow>
           a \<le> c \<and> c \<le> m \<and> eocd_at f c \<and> (\<forall>c'. a \<le> c' \<and> c' < c \<longrightarrow> \<not> eocd_at f c')"
  using assms
proof (induction a m rule: upto.induct)
  case (1 i j)
  show ?case
  proof (cases "i \<le> j")
    case False
    then show ?thesis by (auto simp: upto.simps [of i j])
  next
    case True
    have step: "scan_eocd f (int (length f)) [i..j] =
        (if eocd_at f i then Inr i else scan_eocd f (int (length f)) [i + 1..j])"
      using True 1 scan_eocd_step [of i f "[i + 1..j]"] by (simp add: upto.simps [of i j])
    have IH: "scan_eocd f (int (length f)) [i + 1..j] = Inr c \<longleftrightarrow>
           i + 1 \<le> c \<and> c \<le> j \<and> eocd_at f c \<and> (\<forall>c'. i + 1 \<le> c' \<and> c' < c \<longrightarrow> \<not> eocd_at f c')"
      using 1 True by simp
    show ?thesis
    proof (cases "eocd_at f i")
      case True
      with step \<open>i \<le> j\<close> show ?thesis by (auto simp: not_less) 
    next
      case False
      have "\<And>c'. i \<le> c' \<and> c' < c \<and> eocd_at f c' \<longleftrightarrow> i + 1 \<le> c' \<and> c' < c \<and> eocd_at f c'"
        using False by (metis add1_zle_eq order_le_less)
      with step False IH show ?thesis
        by (metis add1_zle_eq order_le_less)
    qed
  qed
qed

lemma scan_eocd_upto_Inl:
  assumes "0 \<le> a" "m \<le> int (length f) - 22"
  shows "scan_eocd f (int (length f)) [a..m] = Inl e \<longleftrightarrow>
           e = SignatureNotFoundException NoEOCD \<and> (\<forall>c. a \<le> c \<and> c \<le> m \<longrightarrow> \<not> eocd_at f c)"
  using assms
proof (induction a m rule: upto.induct)
  case (1 i j)
  show ?case
  proof (cases "i \<le> j")
    case False
    then show ?thesis by (auto simp: upto.simps [of i j])
  next
    case True
    have step: "scan_eocd f (int (length f)) [i..j] =
        (if eocd_at f i then Inr i else scan_eocd f (int (length f)) [i + 1..j])"
      using True 1 scan_eocd_step [of i f "[i + 1..j]"] by (simp add: upto.simps [of i j])
    have IH: "scan_eocd f (int (length f)) [i + 1..j] = Inl e \<longleftrightarrow>
           e = SignatureNotFoundException NoEOCD \<and> (\<forall>c. i + 1 \<le> c \<and> c \<le> j \<longrightarrow> \<not> eocd_at f c)"
      using 1 True by simp
    show ?thesis
    proof (cases "eocd_at f i")
      case True
      with step \<open>i \<le> j\<close> show ?thesis by auto
    next
      case False
      with step IH show ?thesis
        by (metis add1_zle_eq order_le_less)
    qed
  qed
qed

lemma get_comment_length_Inr_iff:
  "get_comment_length f = Inr c \<longleftrightarrow>
     0 \<le> c \<and> c \<le> min (int (length f) - 22) 65535 \<and> eocd_at f c \<and>
     (\<forall>c'. 0 \<le> c' \<and> c' < c \<longrightarrow> \<not> eocd_at f c')"
proof -
  have "min (int (length f) - 22) 65535 \<le> int (length f) - 22" by simp
  from scan_eocd_upto_Inr [OF order_refl this] show ?thesis
    by (simp add: get_comment_length_def Let_def)
qed

text \<open>
  Claim C5.  \<open>_get_comment_length\<close> returns \<open>c\<close> exactly when \<open>c\<close> is the least candidate
  between 0 and \<open>min (file size - 22) 65535\<close> for which the four bytes at offset
  \<open>file size - 22 - c\<close> are the EOCD signature \<open>0x06054b50\<close> and the record's 16-bit
  comment length is \<open>c\<close>: a smaller candidate whose bytes carry the signature but
  declare another length is passed over.  It fails, with the exception of line 62,
  exactly when no candidate passes both tests; it raises nothing else.
\<close>

theorem get_comment_length_spec:
  "(get_comment_length f = Inr c \<longleftrightarrow>
      0 \<le> c \<and> c \<le> min (int (length f) - 22) 65535 \<and> eocd_at f c \<and>
      (\<forall>c'. 0 \<le> c' \<and> c' < c \<longrightarrow> \<not> eocd_at f c')) \<and>
   (get_comment_length f = Inl e \<longleftrightarrow>
      e = SignatureNotFoundException NoEOCD \<and>
      (\<forall>c'. 0 \<le> c' \<and> c' \<le> min (int (length f) - 22) 65535 \<longrightarrow> \<not> eocd_at f c'))"
proof -
  have m: "min (int (length f) - 22) 65535 \<le> int (length f) - 22" by simp
  show ?thesis
    unfolding get_comment_length_def Let_def
    using scan_eocd_upto_Inr [OF order_refl m] scan_eocd_upto_Inl [OF order_refl m]
    by simp
qed

text \<open>
  The example ends with a 22-byte comment that starts with the signature bytes and ends
  with the bytes 1, 0: candidate 0 finds the signature but the declared length 1, and
  the scan goes on to 22.  Cut to 23 bytes, the file has no EOCD record.
\<close>

theorem get_comment_length_spec_witness:
  "get_comment_length eocd_in_comment = Inr 22 \<and>
   le_int (take 4 (drop (length eocd_in_comment - 22) eocd_in_comment)) = 0x06054b50 \<and>
   \<not> eocd_at eocd_in_comment 0 \<and>
   eocd_at eocd_in_comment 22 \<and>
   get_comment_length (take 23 eocd_in_comment) = Inl (SignatureNotFoundException NoEOCD)"
proof -
  have a: "get_comment_length eocd_in_comment = Inr 22"
    by code_simp
  have b: "le_int (take 4 (drop (length eocd_in_comment - 22) eocd_in_comment)) = 0x06054b50"
    by code_simp
  have c: "\<not> eocd_at (take 23 eocd_in_comment) 0" "\<not> eocd_at (take 23 eocd_in_comment) 1"
    by code_simp+
  have "\<forall>c'. 0 \<le> c' \<and> c' \<le> min (int (length (take 23 eocd_in_comment)) - 22) 65535
          \<longrightarrow> \<not> eocd_at (take 23 eocd_in_comment) c'"
  proof (intro allI impI)
    fix c' :: int
    assume "0 \<le> c' \<and> c' \<le> min (int (length (take 23 eocd_in_comment)) - 22) 65535"
    then have "c' = 0 \<or> c' = 1" by (auto simp: eocd_in_comment_def)
    with c show "\<not> eocd_at (take 23 eocd_in_comment) c'" by auto
  qed
  then have d: "get_comment_length (take 23 eocd_in_comment) = Inl (SignatureNotFoundException NoEOCD)"
    using get_comment_length_spec [of "take 23 eocd_in_comment" 0 "SignatureNotFoundException NoEOCD"]
    by blast
  from a get_comment_length_spec [of eocd_in_comment 22]
  have e: "eocd_at eocd_in_comment 22" "\<not> eocd_at eocd_in_comment 0" by auto
  from a b d e show ?thesis by blast
qed

subsection \<open>The signing block locator\<close>

lemma unpack_le_slice:
  "0 \<le> i \<Longrightarrow> i + int k \<le> int (length xs) \<Longrightarrow>
     unpack_le k (py_slice xs i (i + int k)) = Inr (le_int (take k (drop (nat i) xs)))"
  by (simp add: py_slice_nonneg unpack_le_def)

lemma unpack_le_slice_short:
  "0 \<le> i \<Longrightarrow> 0 < k \<Longrightarrow> int (length xs) < i + int k \<Longrightarrow>
     unpack_le k (py_slice xs i (i + int k)) = Inl StructError"
  by (auto simp: py_slice_nonneg unpack_le_def)

lemma length_footer_of: "24 \<le> cd \<Longrightarrow> length (footer_of f cd) = 24 \<longleftrightarrow> cd \<le> int (length f)"
  by (auto simp: footer_of_def)

lemma find_block_short:
  assumes "32 \<le> cd" "int (length f) < cd"
  shows "find_apk_signing_block f cd = Inl StructError"
proof -
  let ?footer = "footer_of f cd"
  have r: "file_read f (cd - 24) 24 = Inr ?footer"
    using assms by (simp add: file_read_def footer_of_def)
  have len: "length ?footer < 24" using assms by (auto simp: footer_of_def)
  show ?thesis
  proof (cases "16 \<le> length ?footer")
    case True
    have "unpack_le 8 (py_slice ?footer 8 16) = Inr (le_int (take 8 (drop 8 ?footer)))"
      using True unpack_le_slice [of 8 8 ?footer] by simp
    moreover have "unpack_le 8 (py_slice ?footer 16 24) = Inl StructError"
      using len unpack_le_slice_short [of 16 8 ?footer] by simp
    ultimately show ?thesis
      using assms r by (simp add: find_apk_signing_block_def APK_SIG_BLOCK_MIN_SIZE_def)
  next
    case False
    have "unpack_le 8 (py_slice ?footer 8 16) = Inl StructError"
      using False unpack_le_slice_short [of 8 8 ?footer] by simp
    then show ?thesis
      using assms r by (simp add: find_apk_signing_block_def APK_SIG_BLOCK_MIN_SIZE_def)
  qed
qed

lemma find_block_full:
  assumes "32 \<le> cd" "cd \<le> int (length f)"
  shows "find_apk_signing_block f cd =
     (let footer = footer_of f cd; footer_size = le_int (take 8 footer);
          size = footer_size + 8; start = cd - size
      in if \<not> magic_ok footer then Inl (SignatureNotFoundException BadMagic)
         else if start < 0 then Inl (SignatureNotFoundException OffsetOutOfRange)
         else if le_int (take 8 (drop (nat start) f)) \<noteq> footer_size
              then Inl (SignatureNotFoundException SizeMismatch)
         else Inr (take (nat size) (drop (nat start) f), start))"
proof -
  let ?footer = "footer_of f cd"
  let ?fs = "le_int (take 8 ?footer)"
  have r: "file_read f (cd - 24) 24 = Inr ?footer"
    using assms by (simp add: file_read_def footer_of_def)
  have len: "length ?footer = 24" using assms by (simp add: length_footer_of)
  have lo: "unpack_le 8 (py_slice ?footer 8 16) = Inr (le_int (take 8 (drop 8 ?footer)))"
    using len unpack_le_slice [of 8 8 ?footer] by simp
  have hi: "unpack_le 8 (py_slice ?footer 16 24) = Inr (le_int (take 8 (drop 16 ?footer)))"
    using len unpack_le_slice [of 16 8 ?footer] by simp
  have sz: "unpack_le 8 (py_slice ?footer 0 8) = Inr ?fs"
    using len unpack_le_slice [of 0 8 ?footer] by simp
  have fs0: "0 \<le> ?fs" by (rule le_int_nonneg)
  have blk: "file_read f (cd - (?fs + 8)) (?fs + 8) = Inr (take (nat (?fs + 8)) (drop (nat (cd - (?fs + 8))) f))"
    if "0 \<le> cd - (?fs + 8)"
    using that by (simp add: file_read_def)
  have hd: "unpack_le 8 (py_slice (take (nat (?fs + 8)) (drop (nat (cd - (?fs + 8))) f)) 0 8)
       = Inr (le_int (take 8 (drop (nat (cd - (?fs + 8))) f)))"
    if "0 \<le> cd - (?fs + 8)"
  proof -
    let ?b = "take (nat (?fs + 8)) (drop (nat (cd - (?fs + 8))) f)"
    have "int (length ?b) = ?fs + 8" using that assms fs0 by simp
    then have "unpack_le 8 (py_slice ?b 0 (0 + int 8)) = Inr (le_int (take 8 (drop (nat 0) ?b)))"
      using fs0 by (intro unpack_le_slice) simp_all
    moreover have "8 \<le> nat (?fs + 8)" using fs0 by linarith
    then have "take 8 ?b = take 8 (drop (nat (cd - (?fs + 8))) f)"
      by (simp add: min_absorb1)
    ultimately show ?thesis by simp
  qed
  show ?thesis
    using assms(1) blk hd
    by (simp add: find_apk_signing_block_def APK_SIG_BLOCK_MIN_SIZE_def r lo hi sz
        magic_ok_def Let_def)
qed

text \<open>
  Claim C6.  With central directory offset \<open>cd\<close>, \<open>_find_apk_signing_block\<close> raises the
  exception of line 89 when \<open>cd < 32\<close>.  Otherwise the footer is the 24 bytes that end at
  \<open>cd\<close>; the call fails unless its two magic words match (with \<open>struct.error\<close> when the
  file ends before \<open>cd\<close>, with the exception of line 102 otherwise).  With
  \<open>size = footer size + 8\<close> and \<open>start = cd - size\<close> it fails when \<open>start < 0\<close>, fails
  with the size mismatch of line 121 when the leading 64-bit field of the block differs
  from the footer's, and otherwise returns the \<open>size\<close> bytes from \<open>start\<close>, with \<open>start\<close>.
\<close>

theorem find_apk_signing_block_spec:
  "(cd < 32 \<longrightarrow> find_apk_signing_block f cd = Inl (SignatureNotFoundException ApkTooSmall)) \<and>
   (32 \<le> cd \<and> int (length f) < cd \<longrightarrow> find_apk_signing_block f cd = Inl StructError) \<and>
   (32 \<le> cd \<and> cd \<le> int (length f) \<and> \<not> magic_ok (footer_of f cd) \<longrightarrow>
      find_apk_signing_block f cd = Inl (SignatureNotFoundException BadMagic)) \<and>
   (32 \<le> cd \<and> cd \<le> int (length f) \<and> magic_ok (footer_of f cd) \<longrightarrow>
      (let footer_size = le_int (take 8 (footer_of f cd));
           size = footer_size + 8;
           start = cd - size;
           block = take (nat size) (drop (nat start) f)
       in (start < 0 \<longrightarrow>
             find_apk_signing_block f cd = Inl (SignatureNotFoundException OffsetOutOfRange)) \<and>
          (0 \<le> start \<and> le_int (take 8 block) \<noteq> footer_size \<longrightarrow>
             find_apk_signing_block f cd = Inl (SignatureNotFoundException SizeMismatch)) \<and>
          (0 \<le> start \<and> le_int (take 8 block) = footer_size \<longrightarrow>
             find_apk_signing_block f cd = Inr (block, start) \<and> int (length block) = size)))"
proof (intro conjI impI)
  assume "cd < 32"
  then show "find_apk_signing_block f cd = Inl (SignatureNotFoundException ApkTooSmall)"
    by (simp add: find_apk_signing_block_def APK_SIG_BLOCK_MIN_SIZE_def)
next
  assume "32 \<le> cd \<and> int (length f) < cd"
  then show "find_apk_signing_block f cd = Inl StructError"
    by (simp add: find_block_short)
next
  assume "32 \<le> cd \<and> cd \<le> int (length f) \<and> \<not> magic_ok (footer_of f cd)"
  then show "find_apk_signing_block f cd = Inl (SignatureNotFoundException BadMagic)"
    by (simp add: find_block_full)
next
  assume a: "32 \<le> cd \<and> cd \<le> int (length f) \<and> magic_ok (footer_of f cd)"
  have fs0: "0 \<le> le_int (take 8 (footer_of f cd))" by (rule le_int_nonneg)
  have "8 \<le> nat (le_int (take 8 (footer_of f cd)) + 8)" using fs0 by linarith
  then have t8: "take 8 (take (nat (le_int (take 8 (footer_of f cd)) + 8)) xs) = take 8 xs" for xs :: bytes
    by (simp add: min_absorb1)
  show "let footer_size = le_int (take 8 (footer_of f cd));
           size = footer_size + 8;
           start = cd - size;
           block = take (nat size) (drop (nat start) f)
       in (start < 0 \<longrightarrow>
             find_apk_signing_block f cd = Inl (SignatureNotFoundException OffsetOutOfRange)) \<and>
          (0 \<le> start \<and> le_int (take 8 block) \<noteq> footer_size \<longrightarrow>
             find_apk_signing_block f cd = Inl (SignatureNotFoundException SizeMismatch)) \<and>
          (0 \<le> start \<and> le_int (take 8 block) = footer_size \<longrightarrow>
             find_apk_signing_block f cd = Inr (block, start) \<and> int (length block) = size)"
    using a fs0 unfolding Let_def t8
    by (auto simp: find_block_full Let_def)
qed

text \<open>One input for each case of the theorem.\<close>

theorem find_apk_signing_block_spec_witness:
  "find_apk_signing_block signed_apk 10 = Inl (SignatureNotFoundException ApkTooSmall) \<and>
   find_apk_signing_block signed_apk 100 = Inl StructError \<and>
   find_apk_signing_block signed_apk 40 = Inl (SignatureNotFoundException BadMagic) \<and>
   find_apk_signing_block oversized_footer 32 = Inl (SignatureNotFoundException OffsetOutOfRange) \<and>
   find_apk_signing_block mismatched_block 46 = Inl (SignatureNotFoundException SizeMismatch) \<and>
   find_apk_signing_block signed_apk 46 = Inr (take 46 signed_apk, 0)"
proof -
  have len: "int (length signed_apk) = 68" "int (length oversized_footer) = 32"
    "int (length mismatched_block) = 46"
    by (simp_all add: signed_apk_def oversized_footer_def mismatched_block_def)
  have 1: "find_apk_signing_block signed_apk 10 = Inl (SignatureNotFoundException ApkTooSmall)"
    using find_apk_signing_block_spec [of 10 signed_apk] by simp
  have 2: "find_apk_signing_block signed_apk 100 = Inl StructError"
    using find_apk_signing_block_spec [of 100 signed_apk] len by simp
  have "\<not> magic_ok (footer_of signed_apk 40)" by code_simp
  then have 3: "find_apk_signing_block signed_apk 40 = Inl (SignatureNotFoundException BadMagic)"
    using find_apk_signing_block_spec [of 40 signed_apk] len by simp
  have "magic_ok (footer_of oversized_footer 32)"
    and "le_int (take 8 (footer_of oversized_footer 32)) = 1000" by code_simp+
  then have 4: "find_apk_signing_block oversized_footer 32 =
      Inl (SignatureNotFoundException OffsetOutOfRange)"
    using find_apk_signing_block_spec [of 32 oversized_footer] len by (simp add: Let_def)
  have "magic_ok (footer_of mismatched_block 46)"
    and "le_int (take 8 (footer_of mismatched_block 46)) = 38"
    and "le_int (take 8 (take 46 mismatched_block)) = 99" by code_simp+
  then have 5: "find_apk_signing_block mismatched_block 46 =
      Inl (SignatureNotFoundException SizeMismatch)"
    using find_apk_signing_block_spec [of 46 mismatched_block] len by (simp add: Let_def)
  have "magic_ok (footer_of signed_apk 46)"
    and "le_int (take 8 (footer_of signed_apk 46)) = 38"
    and "le_int (take 8 (take 46 signed_apk)) = 38" by code_simp+
  then have 6: "find_apk_signing_block signed_apk 46 = Inr (take 46 signed_apk, 0)"
    using find_apk_signing_block_spec [of 46 signed_apk] len by (simp add: Let_def)
  from 1 2 3 4 5 6 show ?thesis by blast
qed

subsection \<open>Decoding the pairs\<close>

declare find_id_loop.simps [simp del]

lemma find_id_loop_done:
  "\<not> pos < e \<Longrightarrow> find_id_loop blk e pos d = Inr d"
  by (simp add: find_id_loop.simps)

lemma find_id_loop_step:
  assumes "0 \<le> pos" "pos < int (length blk) - 24"
  shows "find_id_loop blk (int (length blk) - 24) pos d =
     (let entry_size = le_int (take 8 (drop (nat pos) blk));
          entry_id = le_int (take 4 (drop (nat (pos + 8)) blk));
          entry_value = py_slice blk (pos + 12) (pos + 8 + entry_size)
      in find_id_loop blk (int (length blk) - 24) (pos + 8 + entry_size)
           (AList.update entry_id entry_value d))"
proof -
  have s: "unpack_le 8 (py_slice blk pos (pos + 8)) = Inr (le_int (take 8 (drop (nat pos) blk)))"
    using assms unpack_le_slice [of pos 8 blk] by simp
  have i: "unpack_le 4 (py_slice blk (pos + 8) (pos + 8 + 4))
             = Inr (le_int (take 4 (drop (nat (pos + 8)) blk)))"
    using assms unpack_le_slice [of "pos + 8" 4 blk] by simp
  have "find_id_loop blk (int (length blk) - 24) pos d =
      find_id_loop blk (int (length blk) - 24)
        (pos + 8 + 4 + (le_int (take 8 (drop (nat pos) blk)) - 4))
        (AList.update (le_int (take 4 (drop (nat (pos + 8)) blk)))
           (py_slice blk (pos + 8 + 4) (pos + 8 + 4 + (le_int (take 8 (drop (nat pos) blk)) - 4))) d)"
    (is "_ = ?rhs")
    by (subst find_id_loop.simps) (simp only: assms(2) if_True s i bindE_Inr Let_def)
  moreover have "pos + 8 + 4 + (le_int (take 8 (drop (nat pos) blk)) - 4)
      = pos + 8 + le_int (take 8 (drop (nat pos) blk))" by simp
  moreover have "pos + 8 + 4 = pos + 12" by simp
  ultimately show ?thesis
    unfolding Let_def by metis
qed

lemma find_id_loop_total:
  "0 \<le> pos \<Longrightarrow> e = int (length blk) - 24 \<Longrightarrow> \<exists>r. find_id_loop blk e pos d = Inr r"
proof (induction blk e pos d rule: find_id_loop.induct)
  case (1 blk e pos d)
  show ?case
  proof (cases "pos < e")
    case False
    then show ?thesis by (simp add: find_id_loop_done)
  next
    case True
    let ?s = "le_int (take 8 (drop (nat pos) blk))"
    let ?i = "le_int (take 4 (drop (nat (pos + 8)) blk))"
    have s: "unpack_le 8 (py_slice blk pos (pos + 8)) = Inr ?s"
      using 1(2,3) True unpack_le_slice [of pos 8 blk] by simp
    have i: "unpack_le 4 (py_slice blk (pos + 8) (pos + 8 + 4)) = Inr ?i"
      using 1(2,3) True unpack_le_slice [of "pos + 8" 4 blk] by simp
    have "0 \<le> pos + 8 + 4 + (?s - 4)"
      using 1(2) le_int_nonneg [of "take 8 (drop (nat pos) blk)"] by linarith
    from 1(1) [OF True s i refl refl this 1(3)]
    obtain r where r: "find_id_loop blk e (pos + 8 + 4 + (?s - 4))
        (AList.update ?i (py_slice blk (pos + 8 + 4) (pos + 8 + 4 + (?s - 4))) d) = Inr r"
      by blast
    have "find_id_loop blk e pos d = find_id_loop blk e (pos + 8 + 4 + (?s - 4))
        (AList.update ?i (py_slice blk (pos + 8 + 4) (pos + 8 + 4 + (?s - 4))) d)"
      by (subst find_id_loop.simps) (simp only: True if_True s i bindE_Inr Let_def)
    with r show ?thesis by metis
  qed
qed

text \<open>
  Claim C2, amended.  \<open>_find_id_values\<close> has no bounds check and raises nothing: every
  block decodes.  An entry at cursor \<open>pos\<close> whose declared length takes the cursor to
  the start of the footer or past it is the last one decoded; it is stored under its
  id with the bytes \<open>blk[pos + 12 : pos + 8 + length]\<close>, which the slice cuts at the
  end of the block.
\<close>

theorem find_id_values_unchecked:
  "(\<exists>d. find_id_values blk = Inr d) \<and>
   (0 \<le> pos \<and> pos < int (length blk) - 24 \<and>
    int (length blk) - 24 \<le> pos + 8 + le_int (take 8 (drop (nat pos) blk)) \<longrightarrow>
      find_id_loop blk (int (length blk) - 24) pos d =
        Inr (AList.update (le_int (take 4 (drop (nat (pos + 8)) blk)))
               (py_slice blk (pos + 12) (pos + 8 + le_int (take 8 (drop (nat pos) blk)))) d))"
proof (intro conjI impI)
  show "\<exists>d. find_id_values blk = Inr d"
    unfolding find_id_values_def by (rule find_id_loop_total) simp_all
next
  assume a: "0 \<le> pos \<and> pos < int (length blk) - 24 \<and>
    int (length blk) - 24 \<le> pos + 8 + le_int (take 8 (drop (nat pos) blk))"
  then show "find_id_loop blk (int (length blk) - 24) pos d =
        Inr (AList.update (le_int (take 4 (drop (nat (pos + 8)) blk)))
               (py_slice blk (pos + 12) (pos + 8 + le_int (take 8 (drop (nat pos) blk)))) d)"
    by (simp add: find_id_loop_step Let_def find_id_loop_done)
qed

text \<open>
  In \<open>overrun_block\<close>, 46 bytes long, the only entry declares 100 bytes: its value is
  everything from offset 20 on, the footer included.
\<close>

theorem find_id_values_unchecked_witness:
  "find_id_values overrun_block = Inr [(5, drop 20 overrun_block)] \<and>
   (\<exists>d. find_id_values (take 30 overrun_block) = Inr d)"
proof -
  have "le_int (take 8 (drop (nat 8) overrun_block)) = 100"
    and "le_int (take 4 (drop (nat (8 + 8)) overrun_block)) = 5"
    and "py_slice overrun_block (8 + 12) (8 + 8 + 100) = drop 20 overrun_block"
    and "int (length overrun_block) = 46"
    by code_simp+
  then have "find_id_loop overrun_block (int (length overrun_block) - 24) 8 [] =
     Inr [(5, drop 20 overrun_block)]"
    using find_id_values_unchecked [of overrun_block 8 "[]"] by simp
  then show ?thesis
    using find_id_values_unchecked [of "take 30 overrun_block"]
    by (simp add: find_id_values_def)
qed

text \<open>
  Claim C2 as stated fails on \<open>overrun_block\<close>: the declared length takes the cursor
  from 8 to 116, past the footer start 22, and the entry is accepted.
\<close>

theorem find_id_values_overrun_counterexample:
  "int (length overrun_block) - 24 < 8 + 8 + le_int (take 8 (drop 8 overrun_block)) \<and>
   find_id_values overrun_block =
     Inr [(5, [1, 2, 38, 0, 0, 0, 0, 0, 0, 0, 65, 80, 75, 32, 83, 105, 103, 32, 66, 108,
               111, 99, 107, 32, 52, 50])]"
  by code_simp

subsection \<open>The paths of \<open>inject_channel\<close> and \<open>get_channel\<close> that write nothing\<close>

lemma inject_body_no_source:
  "files source = None \<Longrightarrow>
     inject_body L files source target ch = (Inl FileNotFoundError, files)"
  by (cases "source = target") (simp_all add: inject_body_def copy2_def open_file_def)

lemma staged_target:
  assumes "files source = Some f"
  shows "(if source \<noteq> target then copy2 files source target else Inr files)
           = Inr (files(target \<mapsto> f))"
  using assms by (auto simp: copy2_def map_upd_triv)

lemma inject_body_parse_fails:
  assumes "files source = Some f" "parse_apk f = Inl e"
  shows "inject_body L files source target ch = (Inl e, files(target \<mapsto> f))"
  unfolding inject_body_def staged_target [of files source f, OF assms(1)]
  using assms(2) by (simp add: open_file_def)

lemma inject_body_build_fails:
  assumes "files source = Some f" "parse_apk f = Inr (c, cd, blk, off, ids)"
    "new_signing_block L ids ch = Inl e"
  shows "inject_body L files source target ch = (Inl e, files(target \<mapsto> f))"
  unfolding inject_body_def staged_target [of files source f, OF assms(1)]
  using assms(2,3) by (simp add: open_file_def)

lemma inject_body_writes:
  assumes "files source = Some f" "parse_apk f = Inr (c, cd, blk, off, ids)"
    "new_signing_block L ids ch = Inr nb"
  shows "inject_body L files source target ch =
           (fst (write_block f c cd off nb), files(target \<mapsto> snd (write_block f c cd off nb)))"
  unfolding inject_body_def staged_target [of files source f, OF assms(1)]
  using assms(2,3) by (simp add: open_file_def split: prod.splits)

lemma inject_channel_alt:
  "inject_channel L files source target ch =
     (\<not> isl (fst (inject_body L files source target ch)),
      snd (inject_body L files source target ch))"
  by (auto simp: inject_channel_def split: prod.splits sum.splits)

lemma parse_apk_Inl:
  "parse_apk f = Inl e \<longleftrightarrow>
     get_comment_length f = Inl e \<or>
     (\<exists>c. get_comment_length f = Inr c \<and>
        (find_central_dir_start_offset f c = Inl e \<or>
         (\<exists>cd. find_central_dir_start_offset f c = Inr cd \<and>
            (find_apk_signing_block f cd = Inl e \<or>
             (\<exists>blk off. find_apk_signing_block f cd = Inr (blk, off) \<and>
                find_id_values blk = Inl e)))))"
  by (auto simp: parse_apk_def bindE_def split: sum.splits prod.splits)

lemma parse_apk_Inr:
  "parse_apk f = Inr (c, cd, blk, off, ids) \<longleftrightarrow>
     get_comment_length f = Inr c \<and> find_central_dir_start_offset f c = Inr cd \<and>
     find_apk_signing_block f cd = Inr (blk, off) \<and> find_id_values blk = Inr ids"
  by (auto simp: parse_apk_def bindE_def split: sum.splits prod.splits)

text \<open>
  Claim C4.  When the decoded pairs of the archive have no entry under \<open>0x7109871a\<close>,
  the body of \<open>inject_channel\<close> raises the exception of line 241, \<open>inject_channel\<close>
  returns \<open>False\<close>, and the destination holds the copy of the source: nothing of the
  block is rewritten.
\<close>

theorem inject_needs_v2_block:
  assumes "files source = Some f"
    and "parse_apk f = Inr (c, cd, blk, off, ids)"
    and "APK_SIGNATURE_SCHEME_V2_BLOCK_ID \<notin> fst ` set ids"
  shows "inject_body L files source target ch =
           (Inl (SignatureNotFoundException NoV2Block), files(target \<mapsto> f)) \<and>
         inject_channel L files source target ch = (False, files(target \<mapsto> f))"
proof -
  have "new_signing_block L ids ch = Inl (SignatureNotFoundException NoV2Block)"
    using assms(3) by (simp add: new_signing_block_def)
  from inject_body_build_fails [of files source f, OF assms(1,2) this]
  show ?thesis by (simp add: inject_channel_def)
qed

theorem inject_needs_v2_block_witness:
  "inject_body plain_lib (one_file ''a.apk'' unsigned_apk) ''a.apk'' ''b.apk'' (PyStr ''x'') =
     (Inl (SignatureNotFoundException NoV2Block),
      (one_file ''a.apk'' unsigned_apk)(''b.apk'' \<mapsto> unsigned_apk)) \<and>
   inject_channel plain_lib (one_file ''a.apk'' unsigned_apk) ''a.apk'' ''b.apk'' (PyStr ''x'') =
     (False, (one_file ''a.apk'' unsigned_apk)(''b.apk'' \<mapsto> unsigned_apk))"
proof -
  have p: "parse_apk unsigned_apk = Inr (0, 46, take 46 unsigned_apk, 0, [(5, [1, 2])])"
    by code_simp
  have k: "APK_SIGNATURE_SCHEME_V2_BLOCK_ID \<notin> fst ` set [(5, [1, 2 :: byte])]"
    by (simp add: APK_SIGNATURE_SCHEME_V2_BLOCK_ID_def)
  have s: "one_file ''a.apk'' unsigned_apk ''a.apk'' = Some unsigned_apk"
    by (simp add: one_file_def)
  show ?thesis
    by (rule inject_needs_v2_block [of "one_file ''a.apk'' unsigned_apk" "''a.apk''", OF s p k])
qed

text \<open>
  Claim C9.  When one of the steps before the write fails (the EOCD scan, the read of
  the central directory offset, the locator, the decoding of the pairs, or the test for
  the v2 entry), the destination holds exactly the bytes of the source: the copy, and
  nothing written after it.
\<close>

theorem inject_early_failure_keeps_copy:
  assumes "files source = Some f"
    and "get_comment_length f = Inl e \<or>
         (\<exists>c. get_comment_length f = Inr c \<and> find_central_dir_start_offset f c = Inl e) \<or>
         (\<exists>c cd. get_comment_length f = Inr c \<and> find_central_dir_start_offset f c = Inr cd \<and>
            find_apk_signing_block f cd = Inl e) \<or>
         (\<exists>c cd blk off. get_comment_length f = Inr c \<and>
            find_central_dir_start_offset f c = Inr cd \<and>
            find_apk_signing_block f cd = Inr (blk, off) \<and> find_id_values blk = Inl e) \<or>
         (\<exists>c cd blk off ids. parse_apk f = Inr (c, cd, blk, off, ids) \<and>
            APK_SIGNATURE_SCHEME_V2_BLOCK_ID \<notin> fst ` set ids \<and>
            e = SignatureNotFoundException NoV2Block)"
  shows "inject_body L files source target ch = (Inl e, files(target \<mapsto> f)) \<and>
         snd (inject_channel L files source target ch) target = Some f \<and>
         fst (inject_channel L files source target ch) = False"
proof -
  consider (parse) "parse_apk f = Inl e"
    | (missing) c cd blk off ids where "parse_apk f = Inr (c, cd, blk, off, ids)"
        "APK_SIGNATURE_SCHEME_V2_BLOCK_ID \<notin> fst ` set ids"
        "e = SignatureNotFoundException NoV2Block"
    using assms(2) unfolding parse_apk_Inl [of f e] by blast
  then have "inject_body L files source target ch = (Inl e, files(target \<mapsto> f))"
  proof cases
    case parse
    then show ?thesis by (rule inject_body_parse_fails [of files source f, OF assms(1)])
  next
    case missing
    have "new_signing_block L ids ch = Inl e"
      using missing(2,3) by (simp add: new_signing_block_def)
    then show ?thesis by (rule inject_body_build_fails [of files source f, OF assms(1) missing(1)])
  qed
  then show ?thesis by (simp add: inject_channel_def)
qed

text \<open>A file without EOCD record, a block with a wrong magic, and a block without v2 entry.\<close>

theorem inject_early_failure_keeps_copy_witness:
  "snd (inject_channel plain_lib (one_file ''a.apk'' (take 23 eocd_in_comment))
          ''a.apk'' ''b.apk'' (PyStr ''x'')) ''b.apk'' = Some (take 23 eocd_in_comment) \<and>
   snd (inject_channel plain_lib (one_file ''a.apk'' bad_magic_apk)
          ''a.apk'' ''b.apk'' (PyStr ''x'')) ''b.apk'' = Some bad_magic_apk \<and>
   snd (inject_channel plain_lib (one_file ''a.apk'' unsigned_apk)
          ''a.apk'' ''b.apk'' (PyStr ''x'')) ''b.apk'' = Some unsigned_apk \<and>
   fst (inject_channel plain_lib (one_file ''a.apk'' unsigned_apk)
          ''a.apk'' ''b.apk'' (PyStr ''x'')) = False"
proof -
  have s: "one_file ''a.apk'' f ''a.apk'' = Some f" for f
    by (simp add: one_file_def)
  have 1: "get_comment_length (take 23 eocd_in_comment) = Inl (SignatureNotFoundException NoEOCD)"
    by code_simp
  have 2: "get_comment_length bad_magic_apk = Inr 0"
    "find_central_dir_start_offset bad_magic_apk 0 = Inr 46"
    "find_apk_signing_block bad_magic_apk 46 = Inl (SignatureNotFoundException BadMagic)"
    by code_simp+
  have 3: "parse_apk unsigned_apk = Inr (0, 46, take 46 unsigned_apk, 0, [(5, [1, 2])])"
    by code_simp
  have k: "APK_SIGNATURE_SCHEME_V2_BLOCK_ID \<notin> fst ` set [(5, [1, 2 :: byte])]"
    by (simp add: APK_SIGNATURE_SCHEME_V2_BLOCK_ID_def)
  show ?thesis
    using inject_early_failure_keeps_copy [of "one_file ''a.apk'' (take 23 eocd_in_comment)"
        "''a.apk''" _ "SignatureNotFoundException NoEOCD" plain_lib "''b.apk''" "PyStr ''x''", OF s]
      inject_early_failure_keeps_copy [of "one_file ''a.apk'' bad_magic_apk"
        "''a.apk''" _ "SignatureNotFoundException BadMagic" plain_lib "''b.apk''" "PyStr ''x''", OF s]
      inject_early_failure_keeps_copy [of "one_file ''a.apk'' unsigned_apk"
        "''a.apk''" _ "SignatureNotFoundException NoV2Block" plain_lib "''b.apk''" "PyStr ''x''", OF s]
      1 2 3 k
    by blast
qed

text \<open>
  Claim C8.  When the archive parses and its pairs have no entry under the channel id
  \<open>0x71777777\<close>, the body of \<open>get_channel\<close> returns \<open>None\<close> without raising, and so does
  \<open>get_channel\<close>.
\<close>

theorem get_channel_absent:
  assumes "files apk_path = Some f"
    and "parse_apk f = Inr (c, cd, blk, off, ids)"
    and "WALLE_CHANNEL_BLOCK_ID \<notin> fst ` set ids"
  shows "get_channel_body L files apk_path = Inr (none_obj L) \<and>
         get_channel L files apk_path = none_obj L"
proof -
  have "map_of ids WALLE_CHANNEL_BLOCK_ID = None"
    using assms(3) by (simp add: map_of_eq_None_iff)
  then show ?thesis
    using assms(1,2) by (simp add: get_channel_def get_channel_body_def open_file_def)
qed

theorem get_channel_absent_witness:
  "get_channel_body plain_lib (one_file ''a.apk'' signed_apk) ''a.apk'' = Inr PyNone \<and>
   get_channel plain_lib (one_file ''a.apk'' signed_apk) ''a.apk'' = PyNone"
proof -
  have p: "parse_apk signed_apk = Inr (0, 46, take 46 signed_apk, 0, [(0x7109871a, [1, 2])])"
    by code_simp
  have k: "WALLE_CHANNEL_BLOCK_ID \<notin> fst ` set [(0x7109871a, [1, 2 :: byte])]"
    by (simp add: WALLE_CHANNEL_BLOCK_ID_def)
  have s: "one_file ''a.apk'' signed_apk ''a.apk'' = Some signed_apk"
    by (simp add: one_file_def)
  have n: "none_obj plain_lib = PyNone" by (simp add: plain_lib_def)
  show ?thesis
    using get_channel_absent [of "one_file ''a.apk'' signed_apk" "''a.apk''", OF s p k, of plain_lib]
    by (simp add: n)
qed

text \<open>
  Claim C10.  Whatever the body of \<open>inject_channel\<close> raises, \<open>inject_channel\<close> returns
  \<open>False\<close> (and \<open>True\<close> only when the body ends normally); whatever the body of
  \<open>get_channel\<close> raises, \<open>get_channel\<close> returns \<open>None\<close>, the value it also returns when
  the archive is sound and has no channel entry.
\<close>

theorem public_operations_catch_all:
  "(fst (inject_body L files source target ch) = Inl e \<longrightarrow>
      inject_channel L files source target ch =
        (False, snd (inject_body L files source target ch))) \<and>
   (fst (inject_body L files source target ch) = Inr u \<longrightarrow>
      inject_channel L files source target ch =
        (True, snd (inject_body L files source target ch))) \<and>
   (get_channel_body L files apk_path = Inl e' \<longrightarrow> get_channel L files apk_path = none_obj L) \<and>
   (get_channel_body L files apk_path = Inr (none_obj L) \<longrightarrow>
      get_channel L files apk_path = none_obj L)"
  by (auto simp: inject_channel_def get_channel_def split: prod.splits)

text \<open>
  A missing source, a file without EOCD record, a wrong magic and mismatched sizes all
  give \<open>False\<close>; reading the archive with mismatched sizes and reading the sound archive
  that has no channel entry both give \<open>None\<close>.
\<close>

theorem public_operations_catch_all_witness:
  "fst (inject_channel plain_lib Map.empty ''a.apk'' ''b.apk'' (PyStr ''x'')) = False \<and>
   fst (inject_channel plain_lib (one_file ''a.apk'' (take 23 eocd_in_comment))
          ''a.apk'' ''b.apk'' (PyStr ''x'')) = False \<and>
   fst (inject_channel plain_lib (one_file ''a.apk'' bad_magic_apk)
          ''a.apk'' ''b.apk'' (PyStr ''x'')) = False \<and>
   fst (inject_channel plain_lib (one_file ''a.apk'' mismatched_apk)
          ''a.apk'' ''b.apk'' (PyStr ''x'')) = False \<and>
   get_channel_body plain_lib (one_file ''a.apk'' mismatched_apk) ''a.apk'' =
     Inl (SignatureNotFoundException SizeMismatch) \<and>
   get_channel plain_lib (one_file ''a.apk'' mismatched_apk) ''a.apk'' = PyNone \<and>
   get_channel_body plain_lib (one_file ''a.apk'' signed_apk) ''a.apk'' = Inr PyNone \<and>
   get_channel plain_lib (one_file ''a.apk'' signed_apk) ''a.apk'' = PyNone"
proof -
  have s: "one_file ''a.apk'' f ''a.apk'' = Some f" for f
    by (simp add: one_file_def)
  have n: "none_obj plain_lib = PyNone" by (simp add: plain_lib_def)
  have p1: "parse_apk (take 23 eocd_in_comment) = Inl (SignatureNotFoundException NoEOCD)"
    and p2: "parse_apk bad_magic_apk = Inl (SignatureNotFoundException BadMagic)"
    and p3: "parse_apk mismatched_apk = Inl (SignatureNotFoundException SizeMismatch)"
    and p4: "parse_apk signed_apk = Inr (0, 46, take 46 signed_apk, 0, [(0x7109871a, [1, 2])])"
    by code_simp+
  have 0: "fst (inject_body plain_lib Map.empty ''a.apk'' ''b.apk'' (PyStr ''x''))
             = Inl FileNotFoundError"
    by (simp add: inject_body_no_source)
  have 1: "fst (inject_body plain_lib (one_file ''a.apk'' (take 23 eocd_in_comment))
                  ''a.apk'' ''b.apk'' (PyStr ''x'')) = Inl (SignatureNotFoundException NoEOCD)"
    by (simp add: inject_body_parse_fails [of "one_file ''a.apk'' (take 23 eocd_in_comment)" "''a.apk''" "take 23 eocd_in_comment", OF s p1])
  have 2: "fst (inject_body plain_lib (one_file ''a.apk'' bad_magic_apk)
                  ''a.apk'' ''b.apk'' (PyStr ''x'')) = Inl (SignatureNotFoundException BadMagic)"
    by (simp add: inject_body_parse_fails [of "one_file ''a.apk'' bad_magic_apk" "''a.apk''" "bad_magic_apk", OF s p2])
  have 3: "fst (inject_body plain_lib (one_file ''a.apk'' mismatched_apk)
                  ''a.apk'' ''b.apk'' (PyStr ''x'')) = Inl (SignatureNotFoundException SizeMismatch)"
    by (simp add: inject_body_parse_fails [of "one_file ''a.apk'' mismatched_apk" "''a.apk''" "mismatched_apk", OF s p3])
  have 4: "get_channel_body plain_lib (one_file ''a.apk'' mismatched_apk) ''a.apk'' =
     Inl (SignatureNotFoundException SizeMismatch)"
    by (simp add: get_channel_body_def open_file_def s p3)
  have 5: "get_channel_body plain_lib (one_file ''a.apk'' signed_apk) ''a.apk'' = Inr (none_obj plain_lib)"
    by (simp add: get_channel_body_def open_file_def s p4 WALLE_CHANNEL_BLOCK_ID_def)
  show ?thesis
    using 0 1 2 3 4 5
      public_operations_catch_all [of plain_lib Map.empty "''a.apk''" "''b.apk''" "PyStr ''x''"
         FileNotFoundError]
      public_operations_catch_all [of plain_lib "one_file ''a.apk'' (take 23 eocd_in_comment)"
         "''a.apk''" "''b.apk''" "PyStr ''x''" "SignatureNotFoundException NoEOCD"]
      public_operations_catch_all [of plain_lib "one_file ''a.apk'' bad_magic_apk"
         "''a.apk''" "''b.apk''" "PyStr ''x''" "SignatureNotFoundException BadMagic"]
      public_operations_catch_all [of plain_lib "one_file ''a.apk'' mismatched_apk"
         "''a.apk''" "''b.apk''" "PyStr ''x''" "SignatureNotFoundException SizeMismatch" _
         "''a.apk''" "SignatureNotFoundException SizeMismatch"]
      public_operations_catch_all [of plain_lib "one_file ''a.apk'' signed_apk"
         "''a.apk''" "''b.apk''" "PyStr ''x''" _ _ "''a.apk''"]
    by (simp add: n)
qed

subsection \<open>The rewritten file\<close>

lemma find_block_Inr:
  assumes "find_apk_signing_block f cd = Inr (blk, off)"
  shows "32 \<le> cd" "cd \<le> int (length f)" "0 \<le> off" "off + int (length blk) = cd"
    "blk = take (nat (cd - off)) (drop (nat off) f)" "8 \<le> length blk"
proof -
  show 1: "32 \<le> cd"
    using assms
    by (cases "cd < 32") (auto simp: find_apk_signing_block_def APK_SIG_BLOCK_MIN_SIZE_def)
  show 2: "cd \<le> int (length f)"
    using assms 1 find_block_short [of cd f] by (cases "cd \<le> int (length f)") auto
  let ?fs = "le_int (take 8 (footer_of f cd))"
  have fs0: "0 \<le> ?fs" by (rule le_int_nonneg)
  from assms have r: "0 \<le> cd - (?fs + 8)" "off = cd - (?fs + 8)"
    "blk = take (nat (?fs + 8)) (drop (nat (cd - (?fs + 8))) f)"
    unfolding find_block_full [OF 1 2] Let_def by (auto split: if_splits)
  show "0 \<le> off" using r by simp
  show "off + int (length blk) = cd" using r 2 fs0 by simp
  show "blk = take (nat (cd - off)) (drop (nat off) f)" using r by simp
  show "8 \<le> length blk" using r 2 fs0 by simp
qed

lemma file_write_inside:
  assumes "0 \<le> p" "p + int (length d) \<le> int (length f)"
  shows "file_write f p d = take (nat p) f @ d @ drop (nat p + length d) f"
    and "length (file_write f p d) = length f"
  using assms by (auto simp: file_write_def)

lemma file_read_file_write:
  assumes "0 \<le> p" "p + int (length d) \<le> int (length f)"
  shows "file_read (file_write f p d) p (int (length d)) = Inr d"
  using assms by (simp add: file_read_def file_write_def)

lemma length_spliced:
  "0 \<le> off \<Longrightarrow> off \<le> cd \<Longrightarrow> cd \<le> int (length f) \<Longrightarrow>
     int (length (spliced f cd off nb)) = off + int (length nb) + (int (length f) - cd)"
  by (simp add: spliced_def)

lemma write_block_eq:
  assumes "0 \<le> off" "off \<le> cd" "cd \<le> int (length f)"
  shows "write_block f c cd off nb =
     (let g = spliced f cd off nb; p = int (length g) - c - 6
      in if p < 0 then (Inl OSError, g)
         else (case pack_le 4 (off + int (length nb)) of
                 Inl e \<Rightarrow> (Inl e, g)
               | Inr b \<Rightarrow> (Inr (), file_write g p b)))"
proof -
  let ?f1 = "file_write f off nb"
  let ?p1 = "off + int (length nb)"
  let ?cdd = "drop (nat cd) f"
  have t: "take (nat ?p1) ?f1 = take (nat off) f @ nb"
    using assms by (simp add: file_write_def nat_add_distrib)
  have l: "nat ?p1 \<le> length ?f1"
    using assms by (simp add: file_write_def nat_add_distrib)
  then have f2: "file_write ?f1 ?p1 ?cdd = take (nat off) f @ nb @ ?cdd @ drop (nat ?p1 + length ?cdd) ?f1"
    using t by (simp add: file_write_def [of ?f1])
  have e: "take (nat (?p1 + int (length ?cdd))) (file_write ?f1 ?p1 ?cdd) = spliced f cd off nb"
    unfolding f2 spliced_def using assms by (simp add: nat_add_distrib)
  show ?thesis
    unfolding write_block_def Let_def e by (rule refl)
qed

lemma write_block_ok:
  assumes "0 \<le> off" "off \<le> cd" "cd \<le> int (length f)" "0 \<le> c"
    and "write_block f c cd off nb = (Inr u, f')"
  shows "0 \<le> int (length (spliced f cd off nb)) - c - 6"
    and "off + int (length nb) < 2 ^ 32"
    and "f' = file_write (spliced f cd off nb) (int (length (spliced f cd off nb)) - c - 6)
                (le_bytes 4 (off + int (length nb)))"
    and "int (length f') = off + int (length nb) + (int (length f) - cd)"
    and "find_central_dir_start_offset f' c = Inr (off + int (length nb))"
proof -
  let ?g = "spliced f cd off nb"
  let ?p = "int (length ?g) - c - 6"
  let ?n = "off + int (length nb)"
  from assms(5) show p: "0 \<le> ?p"
    unfolding write_block_eq [OF assms(1-3)] Let_def by (auto split: if_splits)
  from assms(5) p have pk: "pack_le 4 ?n = Inr (le_bytes 4 ?n)" and f': "f' = file_write ?g ?p (le_bytes 4 ?n)"
    unfolding write_block_eq [OF assms(1-3)] Let_def
    by (auto simp: pack_le_def split: if_splits sum.splits)
  from pk show n: "?n < 2 ^ 32" by (auto simp: pack_le_def split: if_splits)
  show "f' = file_write ?g ?p (le_bytes 4 ?n)" by (rule f')
  have fit: "?p + int (length (le_bytes 4 ?n)) \<le> int (length ?g)"
    using assms(4) by simp
  have len: "length f' = length ?g"
    unfolding f' by (rule file_write_inside(2) [OF p fit])
  then show "int (length f') = off + int (length nb) + (int (length f) - cd)"
    using length_spliced [OF assms(1-3)] by simp
  have "file_read f' ?p 4 = Inr (le_bytes 4 ?n)"
    unfolding f' using file_read_file_write [OF p fit] by simp
  moreover have "unpack_le 4 (le_bytes 4 ?n) = Inr ?n"
    using pk by (rule unpack_pack)
  ultimately show "find_central_dir_start_offset f' c = Inr ?n"
    by (simp add: find_central_dir_start_offset_def len)
qed

lemma parse_apk_facts:
  assumes "parse_apk f = Inr (c, cd, blk, off, ids)"
  shows "0 \<le> c" "c + 22 \<le> int (length f)" "c \<le> 65535" "eocd_at f c"
    "32 \<le> cd" "cd \<le> int (length f)" "0 \<le> off" "off + int (length blk) = cd"
    "blk = take (nat (cd - off)) (drop (nat off) f)" "8 \<le> length blk"
    "find_id_values blk = Inr ids" "get_comment_length f = Inr c"
    "find_central_dir_start_offset f c = Inr cd" "find_apk_signing_block f cd = Inr (blk, off)"
proof -
  from assms have g: "get_comment_length f = Inr c"
    and d: "find_central_dir_start_offset f c = Inr cd"
    and b: "find_apk_signing_block f cd = Inr (blk, off)"
    and i: "find_id_values blk = Inr ids"
    by (simp_all add: parse_apk_Inr)
  from g get_comment_length_Inr_iff [of f c]
  show "0 \<le> c" "c + 22 \<le> int (length f)" "c \<le> 65535" "eocd_at f c" by auto
  from find_block_Inr [OF b]
  show "32 \<le> cd" "cd \<le> int (length f)" "0 \<le> off" "off + int (length blk) = cd"
    "blk = take (nat (cd - off)) (drop (nat off) f)" "8 \<le> length blk" by auto
  show "find_id_values blk = Inr ids" "get_comment_length f = Inr c"
    "find_central_dir_start_offset f c = Inr cd" "find_apk_signing_block f cd = Inr (blk, off)"
    by (fact i g d b)+
qed

lemma inject_channel_True:
  assumes "files source = Some f"
    and "inject_channel L files source target ch = (True, files')"
  obtains c cd blk off ids nb f' where
    "parse_apk f = Inr (c, cd, blk, off, ids)"
    "new_signing_block L ids ch = Inr nb"
    "write_block f c cd off nb = (Inr (), f')"
    "files' = files(target \<mapsto> f')"
proof -
  from assms(2) have ok: "\<not> isl (fst (inject_body L files source target ch))"
    and fs: "files' = snd (inject_body L files source target ch)"
    by (simp_all add: inject_channel_alt)
  obtain c cd blk off ids where p: "parse_apk f = Inr (c, cd, blk, off, ids)"
  proof (cases "parse_apk f")
    case (Inl e)
    from inject_body_parse_fails [of files source f e L target ch, OF assms(1) Inl] ok
    show ?thesis by simp
  next
    case (Inr r)
    then show ?thesis using that by (cases r) auto
  qed
  obtain nb where n: "new_signing_block L ids ch = Inr nb"
  proof (cases "new_signing_block L ids ch")
    case (Inl e)
    from inject_body_build_fails [of files source f c cd blk off ids L ch e target, OF assms(1) p Inl] ok
    show ?thesis by simp
  next
    case (Inr r)
    then show ?thesis using that by auto
  qed
  note w = inject_body_writes [of files source f, OF assms(1) p n, of target]
  obtain r f' where wb: "write_block f c cd off nb = (r, f')" by (cases "write_block f c cd off nb")
  from w wb ok have "r = Inr ()" by (cases r) auto
  with wb w fs show ?thesis using that [OF p n] by simp
qed

text \<open>
  Claim C3.  After a successful injection the destination has the size of the source
  minus the size of the old block plus the size of the new one, and the four bytes at
  \<open>new size - comment length - 6\<close>, read as \<open>_find_central_dir_start_offset\<close> reads them,
  are the old block offset plus the length of the new block.
\<close>

theorem inject_size_accounting:
  assumes "files source = Some f"
    and "inject_channel L files source target ch = (True, files')"
  shows "\<exists>c cd blk off ids nb f'.
           parse_apk f = Inr (c, cd, blk, off, ids) \<and>
           new_signing_block L ids ch = Inr nb \<and>
           files' target = Some f' \<and>
           int (length f') = int (length f) - int (length blk) + int (length nb) \<and>
           find_central_dir_start_offset f' c = Inr (off + int (length nb))"
proof -
  from assms obtain c cd blk off ids nb f' where
    p: "parse_apk f = Inr (c, cd, blk, off, ids)" and
    n: "new_signing_block L ids ch = Inr nb" and
    w: "write_block f c cd off nb = (Inr (), f')" and
    fs: "files' = files(target \<mapsto> f')"
    by (rule inject_channel_True)
  note pf = parse_apk_facts [OF p]
  have oc: "off \<le> cd" using pf(8) by simp
  note wf = write_block_ok [OF pf(7) oc pf(6) pf(1) w]
  have "int (length f') = int (length f) - int (length blk) + int (length nb)"
    using wf(4) pf(8) by simp
  with p n fs wf(5) show ?thesis by auto
qed

lemma parse_signed_apk:
  "parse_apk signed_apk = Inr (0, 46, take 46 signed_apk, 0, [(0x7109871a, [1, 2])])"
  by code_simp

lemma new_block_signed_apk:
  "new_signing_block plain_lib [(0x7109871a, [1, 2])] (PyStr ''x'') = Inr injected_block"
  by code_simp

lemma write_signed_apk:
  "write_block signed_apk 0 46 0 injected_block = (Inr (), injected_apk)"
  by code_simp

lemma inject_signed_apk:
  "inject_channel plain_lib (one_file ''a.apk'' signed_apk) ''a.apk'' ''b.apk'' (PyStr ''x'') =
     (True, (one_file ''a.apk'' signed_apk)(''b.apk'' \<mapsto> injected_apk))"
proof -
  have s: "one_file ''a.apk'' signed_apk ''a.apk'' = Some signed_apk"
    by (simp add: one_file_def)
  show ?thesis
    unfolding inject_channel_def
      inject_body_writes [of "one_file ''a.apk'' signed_apk" "''a.apk''" signed_apk,
        OF s parse_signed_apk new_block_signed_apk]
    by (simp add: write_signed_apk)
qed

text \<open>
  Injecting the channel \<open>x\<close> into \<open>signed_apk\<close>: 68 bytes, a block of 46 bytes replaced
  by one of 74.
\<close>

theorem inject_size_accounting_witness:
  "\<exists>f'. snd (inject_channel plain_lib (one_file ''a.apk'' signed_apk) ''a.apk'' ''b.apk''
              (PyStr ''x'')) ''b.apk'' = Some f' \<and>
        int (length f') = 68 - 46 + 74 \<and>
        find_central_dir_start_offset f' 0 = Inr (0 + 74)"
proof -
  have s: "one_file ''a.apk'' signed_apk ''a.apk'' = Some signed_apk"
    by (simp add: one_file_def)
  have l: "length signed_apk = 68" "length injected_block = 74"
    by (simp_all add: signed_apk_def injected_block_def)
  from inject_size_accounting [of "one_file ''a.apk'' signed_apk" "''a.apk''" signed_apk,
      OF s inject_signed_apk]
  show ?thesis
    by (auto simp: parse_signed_apk new_block_signed_apk inject_signed_apk l)
qed

subsection \<open>Encoding and decoding the pairs\<close>

lemma encode_pairs_Inr:
  "encode_pairs d acc = Inr out \<longleftrightarrow> list_all packable d \<and> out = acc @ pairs_bytes d"
proof (induction d arbitrary: acc)
  case Nil
  show ?case by (auto simp: pairs_bytes_def)
next
  case (Cons p d)
  obtain i v where p: "p = (i, v)" by (cases p)
  show ?case
    unfolding p
    by (auto simp: Cons.IH pack_le_def Let_def pairs_bytes_def entry_bytes_def packable_def)
qed

lemma create_block_Inr:
  "create_apk_signing_block d = Inr b \<longleftrightarrow>
     list_all packable d \<and> int (length (pairs_bytes d)) + 24 < 2 ^ 64 \<and>
     b = le_bytes 8 (int (length (pairs_bytes d)) + 24) @ pairs_bytes d @
         le_bytes 8 (int (length (pairs_bytes d)) + 24) @
         le_bytes 8 APK_SIG_BLOCK_MAGIC_LO @ le_bytes 8 APK_SIG_BLOCK_MAGIC_HI"
proof (cases "encode_pairs d []")
  case (Inl e)
  then have "\<not> list_all packable d"
    using encode_pairs_Inr [of d "[]"] by auto
  with Inl show ?thesis by (simp add: create_apk_signing_block_def)
next
  case (Inr pd)
  then have pd: "list_all packable d" "pd = pairs_bytes d"
    using encode_pairs_Inr [of d "[]" pd] by auto
  show ?thesis
    using pd
    by (auto simp: create_apk_signing_block_def Inr pack_le_def Let_def add.commute
        APK_SIG_BLOCK_MAGIC_LO_def APK_SIG_BLOCK_MAGIC_HI_def)
qed

lemma update_new_key:
  "k \<notin> fst ` set d \<Longrightarrow> AList.update k v d = d @ [(k, v)]"
  by (induction d) auto

lemma fold_update_distinct:
  "distinct (map fst d) \<Longrightarrow> fst ` set acc \<inter> fst ` set d = {} \<Longrightarrow>
     fold (\<lambda>p. AList.update (fst p) (snd p)) d acc = acc @ d"
proof (induction d arbitrary: acc)
  case Nil
  show ?case by simp
next
  case (Cons p d)
  have k: "fst p \<notin> fst ` set acc" using Cons.prems(2) by auto
  have "fst ` set (acc @ [p]) \<inter> fst ` set d = {}"
    using Cons.prems by auto
  with Cons.IH [of "acc @ [p]"] Cons.prems(1)
  show ?case by (simp add: update_new_key [OF k])
qed

lemma take_le_bytes_prefix: "take k (le_bytes k n @ xs) = le_bytes k n"
  by simp

lemma decode_pairs:
  assumes "list_all packable d" "length ftr = 24"
  shows "find_id_loop (pre @ pairs_bytes d @ ftr)
           (int (length (pre @ pairs_bytes d @ ftr)) - 24) (int (length pre)) acc =
         Inr (fold (\<lambda>p. AList.update (fst p) (snd p)) d acc)"
  using assms(1)
proof (induction d arbitrary: pre acc)
  case Nil
  show ?case
    using assms(2) by (simp add: pairs_bytes_def find_id_loop_done)
next
  case (Cons p d)
  obtain i v where p: "p = (i, v)" by (cases p)
  let ?blk = "pre @ pairs_bytes (p # d) @ ftr"
  let ?rest = "pairs_bytes d @ ftr"
  have blk: "?blk = pre @ le_bytes 8 (4 + int (length v)) @ le_bytes 4 i @ v @ ?rest"
    by (simp add: pairs_bytes_def entry_bytes_def p)
  have ok: "0 \<le> i" "i < 2 ^ 32" "4 + int (length v) < 2 ^ 64"
    using Cons.prems by (simp_all add: packable_def p)
  have pos: "int (length pre) < int (length ?blk) - 24"
    unfolding blk using assms(2) by simp
  have sz: "le_int (take 8 (drop (nat (int (length pre))) ?blk)) = 4 + int (length v)"
    unfolding blk using ok by (simp add: le_int_le_bytes)
  have id: "le_int (take 4 (drop (nat (int (length pre) + 8)) ?blk)) = i"
    unfolding blk using ok by (simp add: nat_add_distrib le_int_le_bytes)
  have val: "py_slice ?blk (int (length pre) + 12) (int (length pre) + 8 + (4 + int (length v))) = v"
    unfolding blk by (simp add: py_slice_nonneg nat_add_distrib)
  have nxt: "int (length pre) + 8 + (4 + int (length v)) = int (length (pre @ entry_bytes p))"
    by (simp add: entry_bytes_def p)
  have blk': "?blk = (pre @ entry_bytes p) @ pairs_bytes d @ ftr"
    by (simp add: pairs_bytes_def)
  have "find_id_loop ?blk (int (length ?blk) - 24) (int (length pre)) acc =
        find_id_loop ?blk (int (length ?blk) - 24) (int (length (pre @ entry_bytes p)))
          (AList.update i v acc)"
    using find_id_loop_step [of "int (length pre)" ?blk acc, OF _ pos,
        unfolded Let_def sz id val, unfolded nxt]
    by simp
  also have "\<dots> = Inr (fold (\<lambda>p. AList.update (fst p) (snd p)) d (AList.update i v acc))"
    unfolding blk' using Cons.IH [of "pre @ entry_bytes p" "AList.update i v acc"] Cons.prems
    by simp
  finally show ?case by (simp add: p)
qed

lemma find_id_loop_distinct:
  "distinct (map fst d) \<Longrightarrow> find_id_loop blk e pos d = Inr r \<Longrightarrow> distinct (map fst r)"
proof (induction blk e pos d rule: find_id_loop.induct)
  case (1 blk e pos d)
  show ?case
  proof (cases "pos < e")
    case False
    with 1(2,3) show ?thesis by (simp add: find_id_loop_done)
  next
    case True
    from 1(3) True obtain s i where
      s: "unpack_le 8 (py_slice blk pos (pos + 8)) = Inr s" and
      i: "unpack_le 4 (py_slice blk (pos + 8) (pos + 8 + 4)) = Inr i" and
      r: "find_id_loop blk e (pos + 8 + 4 + (s - 4))
            (AList.update i (py_slice blk (pos + 8 + 4) (pos + 8 + 4 + (s - 4))) d) = Inr r"
      by (subst (asm) find_id_loop.simps)
         (auto simp only: if_True bindE_def Let_def split: sum.splits)
    have "distinct (map fst (AList.update i (py_slice blk (pos + 8 + 4) (pos + 8 + 4 + (s - 4))) d))"
      using 1(2) by (simp add: distinct_update)
    from 1(1) [OF True s i refl refl this r] show ?thesis .
  qed
qed

lemma find_id_values_distinct: "find_id_values blk = Inr ids \<Longrightarrow> distinct (map fst ids)"
  unfolding find_id_values_def by (rule find_id_loop_distinct [of "[]"]) simp_all

lemma decode_created:
  assumes "create_apk_signing_block d = Inr b" "distinct (map fst d)"
  shows "find_id_values b = Inr d"
proof -
  let ?n = "int (length (pairs_bytes d)) + 24"
  let ?ftr = "le_bytes 8 ?n @ le_bytes 8 APK_SIG_BLOCK_MAGIC_LO @ le_bytes 8 APK_SIG_BLOCK_MAGIC_HI"
  from assms(1) have pk: "list_all packable d"
    and b: "b = le_bytes 8 ?n @ pairs_bytes d @ ?ftr"
    by (simp_all add: create_block_Inr)
  have "find_id_loop (le_bytes 8 ?n @ pairs_bytes d @ ?ftr)
          (int (length (le_bytes 8 ?n @ pairs_bytes d @ ?ftr)) - 24)
          (int (length (le_bytes 8 ?n))) [] =
        Inr (fold (\<lambda>p. AList.update (fst p) (snd p)) d [])"
    by (rule decode_pairs [OF pk]) simp
  then show ?thesis
    using fold_update_distinct [OF assms(2), of "[]"]
    by (simp add: find_id_values_def b)
qed

subsection \<open>The new block\<close>

lemma new_signing_block_Inr:
  assumes "new_signing_block L ids ch = Inr nb"
  obtains chb where
    "APK_SIGNATURE_SCHEME_V2_BLOCK_ID \<in> fst ` set ids"
    "bindE (create_channel_info L ch) (str_encode L) = Inr chb"
    "create_apk_signing_block
       (AList.update WALLE_CHANNEL_BLOCK_ID chb
          (if VERITY_PADDING_BLOCK_ID \<in> fst ` set ids
           then AList.delete VERITY_PADDING_BLOCK_ID ids else ids)) = Inr nb"
proof -
  from assms have v2: "APK_SIGNATURE_SCHEME_V2_BLOCK_ID \<in> fst ` set ids"
    by (auto simp: new_signing_block_def split: if_splits)
  from assms v2 obtain js where js: "create_channel_info L ch = Inr js"
    by (cases "create_channel_info L ch") (auto simp: new_signing_block_def Let_def)
  from assms v2 js obtain chb where chb: "str_encode L js = Inr chb"
    by (cases "str_encode L js") (auto simp: new_signing_block_def Let_def)
  from assms v2 js chb show ?thesis
    using that [of chb] by (simp add: new_signing_block_def Let_def)
qed

lemma ids_distinct_consts:
  "APK_SIGNATURE_SCHEME_V2_BLOCK_ID \<noteq> WALLE_CHANNEL_BLOCK_ID"
  "APK_SIGNATURE_SCHEME_V2_BLOCK_ID \<noteq> VERITY_PADDING_BLOCK_ID"
  by (simp_all add: APK_SIGNATURE_SCHEME_V2_BLOCK_ID_def WALLE_CHANNEL_BLOCK_ID_def
      VERITY_PADDING_BLOCK_ID_def)

lemma decode_new_block:
  assumes "find_id_values blk = Inr ids" "new_signing_block L ids ch = Inr nb"
  obtains chb ids' where
    "bindE (create_channel_info L ch) (str_encode L) = Inr chb"
    "find_id_values nb = Inr ids'"
    "map_of ids' WALLE_CHANNEL_BLOCK_ID = Some chb"
    "map_of ids' APK_SIGNATURE_SCHEME_V2_BLOCK_ID = map_of ids APK_SIGNATURE_SCHEME_V2_BLOCK_ID"
    "map_of ids APK_SIGNATURE_SCHEME_V2_BLOCK_ID \<noteq> None"
    "create_apk_signing_block ids' = Inr nb"
proof -
  let ?ids1 = "if VERITY_PADDING_BLOCK_ID \<in> fst ` set ids
               then AList.delete VERITY_PADDING_BLOCK_ID ids else ids"
  from assms(2) obtain chb where
    v2: "APK_SIGNATURE_SCHEME_V2_BLOCK_ID \<in> fst ` set ids" and
    chb: "bindE (create_channel_info L ch) (str_encode L) = Inr chb" and
    cr: "create_apk_signing_block (AList.update WALLE_CHANNEL_BLOCK_ID chb ?ids1) = Inr nb"
    by (rule new_signing_block_Inr)
  let ?ids2 = "AList.update WALLE_CHANNEL_BLOCK_ID chb ?ids1"
  have d: "distinct (map fst ids)" using assms(1) by (rule find_id_values_distinct)
  then have "distinct (map fst ?ids1)" by (simp add: distinct_delete)
  then have d2: "distinct (map fst ?ids2)" by (rule distinct_update)
  have dec: "find_id_values nb = Inr ?ids2" using cr d2 by (rule decode_created)
  have c: "map_of ?ids2 WALLE_CHANNEL_BLOCK_ID = Some chb"
    by (simp add: update_conv')
  have "map_of ?ids1 APK_SIGNATURE_SCHEME_V2_BLOCK_ID = map_of ids APK_SIGNATURE_SCHEME_V2_BLOCK_ID"
    using ids_distinct_consts by (simp add: delete_conv')
  then have s: "map_of ?ids2 APK_SIGNATURE_SCHEME_V2_BLOCK_ID
      = map_of ids APK_SIGNATURE_SCHEME_V2_BLOCK_ID"
    using ids_distinct_consts by (simp add: update_conv')
  have n: "map_of ids APK_SIGNATURE_SCHEME_V2_BLOCK_ID \<noteq> None"
    using v2 by (simp add: map_of_eq_None_iff)
  from chb dec c s n cr show ?thesis by (rule that)
qed

subsection \<open>Reading the destination back\<close>

lemma file_write_append:
  assumes "int (length xs) \<le> p"
  shows "file_write (xs @ ys) p d = xs @ file_write ys (p - int (length xs)) d"
proof -
  have n: "nat (p - int (length xs)) = nat p - length xs" "length xs \<le> nat p"
    using assms by simp_all
  then have "nat p + length d - length xs = nat p - length xs + length d" by simp
  then show ?thesis
    using n by (simp add: file_write_def)
qed

lemma length_created_block:
  assumes "create_apk_signing_block d = Inr b"
  shows "int (length b) = int (length (pairs_bytes d)) + 32"
  using assms by (auto simp: create_block_Inr)

lemma find_block_created:
  assumes "create_apk_signing_block d = Inr b"
  shows "find_apk_signing_block (pre @ b @ post) (int (length pre) + int (length b))
           = Inr (b, int (length pre))"
proof -
  let ?n = "int (length (pairs_bytes d)) + 24"
  let ?hdr = "le_bytes 8 ?n"
  let ?ftr = "le_bytes 8 ?n @ le_bytes 8 APK_SIG_BLOCK_MAGIC_LO @ le_bytes 8 APK_SIG_BLOCK_MAGIC_HI"
  let ?f = "pre @ b @ post"
  let ?cd = "int (length pre) + int (length b)"
  from assms have n: "?n < 2 ^ 64" and b: "b = ?hdr @ pairs_bytes d @ ?ftr"
    by (simp_all add: create_block_Inr)
  have n0: "0 \<le> ?n" by simp
  have lb: "int (length b) = ?n + 8" by (subst b) simp
  have cd32: "32 \<le> ?cd" using lb by simp
  have cdn: "?cd \<le> int (length ?f)" by simp
  have "nat (?cd - 24) = length (pre @ ?hdr @ pairs_bytes d)"
    using lb by simp
  moreover have "?f = (pre @ ?hdr @ pairs_bytes d) @ ?ftr @ post"
    by (subst b) simp
  ultimately have "drop (nat (?cd - 24)) ?f = ?ftr @ post"
    by (metis append_eq_conv_conj)
  then have "footer_of ?f ?cd = take 24 (?ftr @ post)"
    by (simp only: footer_of_def)
  then have ft: "footer_of ?f ?cd = ?ftr"
    by simp
  have lo: "le_int (le_bytes 8 APK_SIG_BLOCK_MAGIC_LO) = APK_SIG_BLOCK_MAGIC_LO"
    by (rule le_int_le_bytes) (simp_all add: APK_SIG_BLOCK_MAGIC_LO_def)
  have hi: "le_int (le_bytes 8 APK_SIG_BLOCK_MAGIC_HI) = APK_SIG_BLOCK_MAGIC_HI"
    by (rule le_int_le_bytes) (simp_all add: APK_SIG_BLOCK_MAGIC_HI_def)
  have mg: "magic_ok (footer_of ?f ?cd)"
    unfolding ft by (simp add: magic_ok_def lo hi)
  have nn: "le_int (le_bytes 8 ?n) = ?n"
    by (rule le_int_le_bytes) (use n0 n in simp_all)
  have fs: "le_int (take 8 (footer_of ?f ?cd)) = ?n"
    unfolding ft by (simp add: nn)
  have st: "?cd - (?n + 8) = int (length pre)" using lb by simp
  have hd: "le_int (take 8 (drop (length pre) ?f)) = ?n"
    by (subst b) (simp add: nn)
  have bl: "take (nat (?n + 8)) (drop (length pre) ?f) = b"
  proof -
    have "nat (?n + 8) = length b" using lb by simp
    then show ?thesis by simp
  qed
  show ?thesis
    unfolding find_block_full [OF cd32 cdn] Let_def fs st
    using mg hd bl by simp
qed

text \<open>
  When the offset field of the EOCD record lies behind the central directory offset,
  the destination is the old prefix, the new block, and the old tail with its offset
  field replaced.
\<close>

lemma destination_layout:
  assumes "0 \<le> off" "off \<le> cd" "cd \<le> int (length f)" "0 \<le> c"
    and "write_block f c cd off nb = (Inr u, f')"
    and "cd + c + 6 \<le> int (length f)"
  shows "f' = take (nat off) f @ nb @
              file_write (drop (nat cd) f) (int (length f) - cd - c - 6)
                (le_bytes 4 (off + int (length nb)))"
proof -
  note w = write_block_ok [OF assms(1-5)]
  let ?g = "spliced f cd off nb"
  have lg: "int (length ?g) = off + int (length nb) + (int (length f) - cd)"
    using assms(1-3) by (rule length_spliced)
  have g: "?g = (take (nat off) f @ nb) @ drop (nat cd) f"
    by (simp add: spliced_def)
  have lp: "int (length (take (nat off) f @ nb)) = off + int (length nb)"
    using assms(1-3) by simp
  have le: "int (length (take (nat off) f @ nb)) \<le> int (length ?g) - c - 6"
    unfolding lp lg using assms(6) by simp
  have "f' = (take (nat off) f @ nb) @
        file_write (drop (nat cd) f) (int (length ?g) - c - 6 - int (length (take (nat off) f @ nb)))
          (le_bytes 4 (off + int (length nb)))"
    unfolding w(3) by (subst g) (rule file_write_append [OF le])
  moreover have "int (length ?g) - c - 6 - int (length (take (nat off) f @ nb))
      = int (length f) - cd - c - 6"
    unfolding lp lg by simp
  ultimately show ?thesis by (simp only: append_assoc)
qed

lemma eocd_at_tail:
  assumes "int (length E) = c + 2" "length p4 = 4" "0 \<le> c'" "c' \<le> c" "c \<le> c' + 12"
    and "16 \<le> length S"
  shows "eocd_at (X @ S @ p4 @ E) c' \<longleftrightarrow>
           le_int (take 4 (drop (length S - nat (16 + c' - c)) S)) = 0x06054b50 \<and>
           le_int (take 2 (drop (nat (c - c')) E)) = c'"
proof -
  let ?f = "X @ S @ p4 @ E"
  let ?j = "nat (16 + c' - c)"
  have j: "4 \<le> ?j" "?j \<le> 16" using assms(3-5) by simp_all
  have n: "int (length ?f) = int (length X) + int (length S) + 4 + (c + 2)"
    using assms(1,2) by simp
  have p: "nat (int (length ?f) - 22 - c') = length X + (length S - ?j)"
    unfolding n using assms(3-6) by simp
  have q: "nat (int (length ?f) - 22 - c' + 20) = length (X @ S @ p4) + nat (c - c')"
    unfolding n using assms(2-6) by simp
  have d1: "drop (length X + (length S - ?j)) ?f = drop (length S - ?j) S @ p4 @ E"
    by simp
  have l1: "4 \<le> length (drop (length S - ?j) S)"
    using j assms(6) by simp
  have t1: "take 4 (drop (nat (int (length ?f) - 22 - c')) ?f) = take 4 (drop (length S - ?j) S)"
    unfolding p d1 using l1 by simp
  have "drop (length (X @ S @ p4) + nat (c - c')) ((X @ S @ p4) @ E) = drop (nat (c - c')) E"
    by (simp only: drop_append length_append) simp
  then have t2: "take 2 (drop (nat (int (length ?f) - 22 - c' + 20)) ?f)
          = take 2 (drop (nat (c - c')) E)"
    unfolding q by simp
  show ?thesis
    unfolding eocd_at_def Let_def t1 t2 ..
qed

text \<open>
  A comment of at most 12 bytes: the destination's EOCD scan compares, for every
  candidate up to the source's comment length, bytes that the injection did not touch.
\<close>

lemma rescan_short_comment:
  assumes "parse_apk f = Inr (c, cd, blk, off, ids)"
    and "write_block f c cd off nb = (Inr u, f')"
    and "cd + c + 22 \<le> int (length f)"
    and "c \<le> 12"
  shows "get_comment_length f' = Inr c"
proof -
  note pf = parse_apk_facts [OF assms(1)]
  have oc: "off \<le> cd" using pf(8) by simp
  have c6: "cd + c + 6 \<le> int (length f)" using assms(3) by simp
  let ?T = "drop (nat cd) f"
  let ?q = "int (length f) - cd - c - 6"
  let ?patch = "le_bytes 4 (off + int (length nb))"
  let ?S = "take (nat ?q) ?T"
  let ?E = "drop (nat ?q + 4) ?T"
  let ?o4 = "take 4 (drop (nat ?q) ?T)"
  have lT: "int (length ?T) = int (length f) - cd" using pf(5,6) by simp
  have q0: "0 \<le> ?q" using c6 by simp
  have qfit: "?q + int (length ?patch) \<le> int (length ?T)"
    unfolding lT using pf(1) by simp
  have lay: "f' = (take (nat off) f @ nb) @ ?S @ ?patch @ ?E"
    using destination_layout [OF pf(7) oc pf(6) pf(1) assms(2) c6]
      file_write_inside(1) [OF q0 qfit] by simp
  have src: "f = take (nat cd) f @ ?S @ ?o4 @ ?E"
  proof -
    have "?T = ?S @ drop (nat ?q) ?T" by (rule append_take_drop_id [symmetric])
    also have "drop (nat ?q) ?T = ?o4 @ drop 4 (drop (nat ?q) ?T)"
      by (rule append_take_drop_id [symmetric])
    also have "drop 4 (drop (nat ?q) ?T) = ?E" by (simp only: drop_drop ac_simps)
    finally have "?T = ?S @ ?o4 @ ?E" .
    then show ?thesis by (metis append_take_drop_id)
  qed
  have lTn: "length ?T = nat ?q + (4 + nat (c + 2))"
    using lT q0 pf(1) by linarith
  have "length ?E = length ?T - (nat ?q + 4)" by (rule length_drop)
  then have lE: "int (length ?E) = c + 2"
    unfolding lTn using pf(1) by simp
  have "length ?S = min (length ?T) (nat ?q)" by (rule length_take)
  then have lS: "16 \<le> length ?S"
    unfolding lTn using assms(3) pf(1) by simp
  have "length ?o4 = min (length ?T - nat ?q) 4"
    by (simp only: length_take length_drop)
  then have lo: "length ?o4 = 4"
    unfolding lTn by simp
  have same: "eocd_at f' c' \<longleftrightarrow> eocd_at f c'" if "0 \<le> c'" "c' \<le> c" for c'
  proof -
    have r: "c \<le> c' + 12" using that assms(4) by simp
    have lp: "length ?patch = 4" by simp
    have "eocd_at ((take (nat off) f @ nb) @ ?S @ ?patch @ ?E) c' \<longleftrightarrow>
          eocd_at (take (nat cd) f @ ?S @ ?o4 @ ?E) c'"
      unfolding eocd_at_tail [OF lE lp that r lS] eocd_at_tail [OF lE lo that r lS] ..
    then show ?thesis unfolding lay [symmetric] src [symmetric] .
  qed
  note wf = write_block_ok [OF pf(7) oc pf(6) pf(1) assms(2)]
  have big: "c \<le> min (int (length f') - 22) 65535"
    using wf(4) assms(3) pf(1,3,7) by simp
  from pf(12) get_comment_length_Inr_iff [of f c]
  have src_ok: "eocd_at f c" "\<forall>c'. 0 \<le> c' \<and> c' < c \<longrightarrow> \<not> eocd_at f c'" by auto
  have "eocd_at f' c" using same [of c] src_ok(1) pf(1) by simp
  moreover have "\<forall>c'. 0 \<le> c' \<and> c' < c \<longrightarrow> \<not> eocd_at f' c'"
    using same src_ok(2) by simp
  ultimately show ?thesis
    using get_comment_length_Inr_iff [of f' c] pf(1) big by blast
qed

subsection \<open>Injecting, then reading\<close>

text \<open>
  Claim C1, amended.  Let the injection of \<open>V\<close> succeed on an archive whose central
  directory offset lies at or before its EOCD record; let the comment be at most 12
  bytes long or, more generally, let the EOCD scan of the destination give the comment
  length it gave on the source; and let the library take the encoded channel value
  back to \<open>V\<close>.  Then \<open>get_channel\<close> on the destination returns \<open>V\<close>, and returns it
  without raising.
\<close>

theorem inject_then_get_channel:
  assumes "files source = Some f"
    and "inject_channel L files source target V = (True, files')"
    and "parse_apk f = Inr (c, cd, blk, off, ids)"
    and "cd + c + 22 \<le> int (length f)"
    and "files' target = Some f'"
    and "c \<le> 12 \<or> get_comment_length f' = Inr c"
    and "\<And>b. bindE (create_channel_info L V) (str_encode L) = Inr b \<Longrightarrow>
              bindE (parse_channel_info L b) (get_channel_key L) = Inr V"
  shows "get_channel_body L files' target = Inr V \<and> get_channel L files' target = V"
proof -
  from assms(1,2) obtain c0 cd0 blk0 off0 ids0 nb f0 where
    p0: "parse_apk f = Inr (c0, cd0, blk0, off0, ids0)" and
    n0: "new_signing_block L ids0 V = Inr nb" and
    w0: "write_block f c0 cd0 off0 nb = (Inr (), f0)" and
    fs: "files' = files(target \<mapsto> f0)"
    by (rule inject_channel_True)
  from p0 assms(3) have eq: "c0 = c" "cd0 = cd" "blk0 = blk" "off0 = off" "ids0 = ids"
    by simp_all
  note n = n0 [unfolded eq] and w = w0 [unfolded eq]
  from fs assms(5) have f': "f0 = f'" by simp
  note pf = parse_apk_facts [OF assms(3)]
  have oc: "off \<le> cd" using pf(8) by simp
  note wf = write_block_ok [OF pf(7) oc pf(6) pf(1) w]
  have "cd + c + 6 \<le> int (length f)" using assms(4) by simp
  from destination_layout [OF pf(7) oc pf(6) pf(1) w this]
  have lay: "f' = take (nat off) f @ nb @
        file_write (drop (nat cd) f) (int (length f) - cd - c - 6)
          (le_bytes 4 (off + int (length nb)))"
    unfolding f' .
  from pf(11) n obtain chb ids' where
    chb: "bindE (create_channel_info L V) (str_encode L) = Inr chb" and
    dec: "find_id_values nb = Inr ids'" and
    chv: "map_of ids' WALLE_CHANNEL_BLOCK_ID = Some chb" and
    cr: "create_apk_signing_block ids' = Inr nb"
    by (rule decode_new_block)
  have lp: "int (length (take (nat off) f)) = off"
    using pf(6,7) oc by simp
  have loc: "find_apk_signing_block f' (off + int (length nb)) = Inr (nb, off)"
    using find_block_created [OF cr, of "take (nat off) f"
        "file_write (drop (nat cd) f) (int (length f) - cd - c - 6)
           (le_bytes 4 (off + int (length nb)))"]
    unfolding lp lay [symmetric] .
  have cdo: "find_central_dir_start_offset f' c = Inr (off + int (length nb))"
    using wf(5) unfolding f' .
  have scan: "get_comment_length f' = Inr c"
    using assms(6) rescan_short_comment [OF assms(3) w assms(4)] unfolding f' by blast
  have "parse_apk f' = Inr (c, off + int (length nb), nb, off, ids')"
    unfolding parse_apk_Inr using scan cdo loc dec by simp
  then have "get_channel_body L files' target = Inr V"
    using assms(5) chv assms(7) [OF chb]
    by (simp add: get_channel_body_def open_file_def)
  then show ?thesis by (simp add: get_channel_def)
qed

lemma inject_one_file:
  assumes "parse_apk f = Inr (c, cd, blk, off, ids)"
    and "new_signing_block L ids ch = Inr nb"
    and "fst (write_block f c cd off nb) = Inr ()"
  shows "inject_channel L (one_file p f) p q ch =
           (True, (one_file p f)(q \<mapsto> snd (write_block f c cd off nb)))"
proof -
  have s: "one_file p f p = Some f" by (simp add: one_file_def)
  show ?thesis
    unfolding inject_channel_def
      inject_body_writes [of "one_file p f" p f, OF s assms(1,2)]
    by (simp add: assms(3))
qed

lemma plain_lib_x:
  assumes "bindE (create_channel_info plain_lib (PyStr ''x'')) (str_encode plain_lib) = Inr b"
  shows "bindE (parse_channel_info plain_lib b) (get_channel_key plain_lib) = Inr (PyStr ''x'')"
proof -
  have "bindE (create_channel_info plain_lib (PyStr ''x'')) (str_encode plain_lib)
          = Inr [123, 34, 99, 104, 97, 110, 110, 101, 108, 34, 58, 32, 34, 120, 34, 125]"
    by code_simp
  with assms have "b = [123, 34, 99, 104, 97, 110, 110, 101, 108, 34, 58, 32, 34, 120, 34, 125]"
    by simp
  moreover have "bindE (parse_channel_info plain_lib
                  [123, 34, 99, 104, 97, 110, 110, 101, 108, 34, 58, 32, 34, 120, 34, 125])
                (get_channel_key plain_lib) = Inr (PyStr ''x'')"
    by code_simp
  ultimately show ?thesis by simp
qed

lemma parse_commented_apk:
  "parse_apk commented_apk = Inr (20, 46, take 46 commented_apk, 0, [(0x7109871a, [1, 2])])"
  by code_simp

lemma write_commented_apk:
  "fst (write_block commented_apk 20 46 0 injected_block) = Inr ()"
  "get_comment_length (snd (write_block commented_apk 20 46 0 injected_block)) = Inr 20"
  by code_simp+

text \<open>
  Two archives with the v2 pair and the channel \<open>x\<close>: \<open>signed_apk\<close> has no comment;
  \<open>commented_apk\<close> has a comment of 20 bytes, and the scan of its destination gives 20.
\<close>

theorem inject_then_get_channel_witness:
  "get_channel plain_lib
     (snd (inject_channel plain_lib (one_file ''a.apk'' signed_apk) ''a.apk'' ''b.apk''
            (PyStr ''x''))) ''b.apk'' = PyStr ''x'' \<and>
   get_channel plain_lib
     (snd (inject_channel plain_lib (one_file ''a.apk'' commented_apk) ''a.apk'' ''b.apk''
            (PyStr ''x''))) ''b.apk'' = PyStr ''x''"
proof -
  have s: "one_file ''a.apk'' f ''a.apk'' = Some f" for f
    by (simp add: one_file_def)
  have l: "cd + c + 22 \<le> int (length signed_apk)" if "cd = 46" "c = 0" for cd c :: int
    using that by (simp add: signed_apk_def)
  have 1: "get_channel plain_lib
     ((one_file ''a.apk'' signed_apk)(''b.apk'' \<mapsto> injected_apk)) ''b.apk'' = PyStr ''x''"
    using inject_then_get_channel [of "one_file ''a.apk'' signed_apk" "''a.apk''" signed_apk
        plain_lib "''b.apk''" "PyStr ''x''" _ 0 46 _ 0 _ injected_apk,
        OF s inject_signed_apk parse_signed_apk l [OF refl refl] _ _ plain_lib_x]
    by simp
  have l2: "46 + 20 + 22 \<le> int (length commented_apk)"
    by (simp add: commented_apk_def)
  note i2 = inject_one_file [OF parse_commented_apk new_block_signed_apk write_commented_apk(1),
      of "''a.apk''" "''b.apk''"]
  have 2: "get_channel plain_lib
     ((one_file ''a.apk'' commented_apk)
        (''b.apk'' \<mapsto> snd (write_block commented_apk 20 46 0 injected_block))) ''b.apk''
      = PyStr ''x''"
    using inject_then_get_channel [of "one_file ''a.apk'' commented_apk" "''a.apk''" commented_apk
        plain_lib "''b.apk''" "PyStr ''x''" _ 20 46 _ 0 _
        "snd (write_block commented_apk 20 46 0 injected_block)",
        OF s i2 parse_commented_apk l2 _ _ plain_lib_x]
      write_commented_apk(2)
    by simp
  from 1 2 show ?thesis
    by (simp add: inject_signed_apk i2)
qed

lemma parse_ambiguous_apk:
  "parse_apk ambiguous_apk =
     Inr (13, 234, take 46 (drop 188 ambiguous_apk), 188, [(0x7109871a, [1, 2])])"
  by code_simp

lemma write_ambiguous_apk:
  "fst (write_block ambiguous_apk 13 234 188 injected_block) = Inr ()"
  "get_comment_length (snd (write_block ambiguous_apk 13 234 188 injected_block)) = Inr 0"
  "parse_apk (snd (write_block ambiguous_apk 13 234 188 injected_block))
     = Inl (SignatureNotFoundException ApkTooSmall)"
  by code_simp+

text \<open>
  Claim C1 as stated fails on \<open>ambiguous_apk\<close>.  Its block holds the v2 pair and the
  injection of \<open>x\<close> succeeds, but the new central directory offset 262 has the low byte
  6: with the bytes \<open>50 4b 05\<close> before the offset field, the last 22 bytes of the
  destination now start with the EOCD signature and end with the length 0, so the scan
  stops at comment length 0 instead of 13, and \<open>get_channel\<close> returns \<open>None\<close>.
\<close>

theorem inject_then_get_channel_counterexample:
  "parse_apk ambiguous_apk =
     Inr (13, 234, take 46 (drop 188 ambiguous_apk), 188, [(0x7109871a, [1, 2])]) \<and>
   fst (inject_channel plain_lib (one_file ''a.apk'' ambiguous_apk) ''a.apk'' ''b.apk''
          (PyStr ''x'')) = True \<and>
   get_channel plain_lib
     (snd (inject_channel plain_lib (one_file ''a.apk'' ambiguous_apk) ''a.apk'' ''b.apk''
            (PyStr ''x''))) ''b.apk'' = PyNone"
proof -
  note i = inject_one_file [OF parse_ambiguous_apk new_block_signed_apk write_ambiguous_apk(1),
      of "''a.apk''" "''b.apk''"]
  have "get_channel_body plain_lib
     ((one_file ''a.apk'' ambiguous_apk)
        (''b.apk'' \<mapsto> snd (write_block ambiguous_apk 13 234 188 injected_block))) ''b.apk''
      = Inl (SignatureNotFoundException ApkTooSmall)"
    by (simp add: get_channel_body_def open_file_def write_ambiguous_apk(3))
  then have "get_channel plain_lib
     ((one_file ''a.apk'' ambiguous_apk)
        (''b.apk'' \<mapsto> snd (write_block ambiguous_apk 13 234 188 injected_block))) ''b.apk''
      = PyNone"
    by (simp add: get_channel_def plain_lib_def)
  with parse_ambiguous_apk show ?thesis
    by (simp add: i)
qed

subsection \<open>The v2 pair across an injection\<close>

text \<open>
  Claim C7, amended.  Let the injection succeed on an archive whose central directory
  offset field lies at or behind the central directory offset
  (\<open>cd + comment length + 6 \<le> file size\<close>).  Then the destination holds the new block
  at the old block offset, untouched by the patch of the offset field: the offset
  field points behind it, \<open>_find_apk_signing_block\<close> returns exactly these bytes, and
  decoded by \<open>_find_id_values\<close> they hold under \<open>0x7109871a\<close> the value that the
  original block holds under that id, whatever became of the padding pair and of the
  channel pair.
\<close>

theorem signature_value_passes_through:
  assumes "files source = Some f"
    and "inject_channel L files source target ch = (True, files')"
    and "parse_apk f = Inr (c, cd, blk, off, ids)"
    and "cd + c + 6 \<le> int (length f)"
  shows "\<exists>nb f' ids' v.
           new_signing_block L ids ch = Inr nb \<and>
           files' target = Some f' \<and>
           take (length nb) (drop (nat off) f') = nb \<and>
           find_central_dir_start_offset f' c = Inr (off + int (length nb)) \<and>
           find_apk_signing_block f' (off + int (length nb)) = Inr (nb, off) \<and>
           find_id_values nb = Inr ids' \<and>
           map_of ids APK_SIGNATURE_SCHEME_V2_BLOCK_ID = Some v \<and>
           map_of ids' APK_SIGNATURE_SCHEME_V2_BLOCK_ID = Some v"
proof -
  from assms(1,2) obtain c0 cd0 blk0 off0 ids0 nb f' where
    p0: "parse_apk f = Inr (c0, cd0, blk0, off0, ids0)" and
    n0: "new_signing_block L ids0 ch = Inr nb" and
    w0: "write_block f c0 cd0 off0 nb = (Inr (), f')" and
    fs: "files' = files(target \<mapsto> f')"
    by (rule inject_channel_True)
  from p0 assms(3) have eq: "c0 = c" "cd0 = cd" "blk0 = blk" "off0 = off" "ids0 = ids"
    by simp_all
  note n = n0 [unfolded eq] and w = w0 [unfolded eq]
  note pf = parse_apk_facts [OF assms(3)]
  have oc: "off \<le> cd" using pf(8) by simp
  note wf = write_block_ok [OF pf(7) oc pf(6) pf(1) w]
  let ?tail = "file_write (drop (nat cd) f) (int (length f) - cd - c - 6)
                 (le_bytes 4 (off + int (length nb)))"
  have lay: "f' = take (nat off) f @ nb @ ?tail"
    by (rule destination_layout [OF pf(7) oc pf(6) pf(1) w assms(4)])
  have lp: "length (take (nat off) f) = nat off"
    using pf(6,7) oc by simp
  have "drop (length (take (nat off) f)) (take (nat off) f @ nb @ ?tail) = nb @ ?tail"
    by (rule append_eq_conv_conj [THEN iffD1, THEN conjunct2, symmetric]) (rule refl)
  then have "drop (nat off) f' = nb @ ?tail"
    unfolding lp lay [symmetric] .
  then have here: "take (length nb) (drop (nat off) f') = nb"
    by simp
  from pf(11) n obtain chb ids' where
    dec: "find_id_values nb = Inr ids'" and
    same: "map_of ids' APK_SIGNATURE_SCHEME_V2_BLOCK_ID
             = map_of ids APK_SIGNATURE_SCHEME_V2_BLOCK_ID" and
    some: "map_of ids APK_SIGNATURE_SCHEME_V2_BLOCK_ID \<noteq> None" and
    cr: "create_apk_signing_block ids' = Inr nb"
    by (rule decode_new_block)
  have lpi: "int (length (take (nat off) f)) = off"
    using lp pf(7) by simp
  have loc: "find_apk_signing_block f' (off + int (length nb)) = Inr (nb, off)"
    using find_block_created [OF cr, of "take (nat off) f" ?tail]
    unfolding lpi lay [symmetric] .
  from some obtain v where v: "map_of ids APK_SIGNATURE_SCHEME_V2_BLOCK_ID = Some v"
    by auto
  have "files' target = Some f'" using fs by simp
  with n here wf(5) loc dec v same show ?thesis
    by (intro exI [of _ nb] exI [of _ f'] exI [of _ ids'] exI [of _ v]) simp
qed

lemma parse_padded_apk:
  "parse_apk padded_apk =
     Inr (0, 62, take 62 padded_apk, 0, [(0x42726577, [0, 0, 0, 0]), (0x7109871a, [1, 2])])"
  by code_simp

lemma new_block_padded_apk:
  "new_signing_block plain_lib [(0x42726577, [0, 0, 0, 0]), (0x7109871a, [1, 2])] (PyStr ''x'')
     = Inr injected_block"
  by code_simp

lemma write_padded_apk:
  "write_block padded_apk 0 62 0 injected_block = (Inr (), injected_apk)"
  by code_simp

lemma inject_padded_apk:
  "inject_channel plain_lib (one_file ''a.apk'' padded_apk) ''a.apk'' ''b.apk'' (PyStr ''x'') =
     (True, (one_file ''a.apk'' padded_apk)(''b.apk'' \<mapsto> injected_apk))"
proof -
  have s: "one_file ''a.apk'' padded_apk ''a.apk'' = Some padded_apk"
    by (simp add: one_file_def)
  show ?thesis
    unfolding inject_channel_def
      inject_body_writes [of "one_file ''a.apk'' padded_apk" "''a.apk''" padded_apk,
        OF s parse_padded_apk new_block_padded_apk]
    by (simp add: write_padded_apk)
qed

text \<open>
  In \<open>padded_apk\<close> the padding pair comes before the v2 pair; the injection drops the
  first and appends the channel pair.  The destination \<open>injected_apk\<close> holds the new
  block in its first 74 bytes, and the value 1, 2 of the v2 pair is kept.
\<close>

theorem signature_value_passes_through_witness:
  "62 + 0 + 6 \<le> int (length padded_apk) \<and>
   take (length injected_block) (drop (nat 0) injected_apk) = injected_block \<and>
   find_apk_signing_block injected_apk (0 + int (length injected_block))
     = Inr (injected_block, 0) \<and>
   (\<exists>ids'. find_id_values injected_block = Inr ids' \<and>
      map_of [(0x42726577, [0, 0, 0, 0]), (0x7109871a, [1, 2])] APK_SIGNATURE_SCHEME_V2_BLOCK_ID
        = Some [1, 2] \<and>
      map_of ids' APK_SIGNATURE_SCHEME_V2_BLOCK_ID = Some [1, 2])"
proof -
  have s: "one_file ''a.apk'' padded_apk ''a.apk'' = Some padded_apk"
    by (simp add: one_file_def)
  have l: "62 + 0 + 6 \<le> int (length padded_apk)"
    by (simp add: padded_apk_def)
  from signature_value_passes_through [of "one_file ''a.apk'' padded_apk" "''a.apk''" padded_apk
      plain_lib "''b.apk''" "PyStr ''x''" _ 0 62 _ 0, OF s inject_padded_apk parse_padded_apk l]
  show ?thesis
    using l by (auto simp: new_block_padded_apk APK_SIGNATURE_SCHEME_V2_BLOCK_ID_def)
qed

lemma parse_overlapping_apk:
  "parse_apk overlapping_apk =
     Inr (52, 74, drop 22 overlapping_apk, 22, [(0x7109871a, [1, 2, 3, 4, 5, 6, 7, 8])])"
  by code_simp

lemma new_block_overlapping_apk:
  "new_signing_block plain_lib [(0x7109871a, [1, 2, 3, 4, 5, 6, 7, 8])] (PyStr ''x'')
     = Inr overlapping_new_block"
  by code_simp

lemma write_overlapping_apk:
  "fst (write_block overlapping_apk 52 74 22 overlapping_new_block) = Inr ()"
  "find_id_values (take 80 (drop 22
      (snd (write_block overlapping_apk 52 74 22 overlapping_new_block)))) =
     Inr [(0x7109871a, [1, 2, 102, 0, 0, 0, 7, 8]),
          (0x71777777, [123, 34, 99, 104, 97, 110, 110, 101, 108, 34, 58, 32, 34, 120, 34, 125])]"
  "take 8 (drop 42 (snd (write_block overlapping_apk 52 74 22 overlapping_new_block)))
     = [1, 2, 102, 0, 0, 0, 7, 8]"
  by code_simp+

text \<open>
  Claim C7 as stated fails on \<open>overlapping_apk\<close>.  Its block, at offset 22, holds the
  v2 value 1, ..., 8, and the injection of \<open>x\<close> succeeds.  The new block of 80 bytes
  goes to offset 22 and ends the file at 102; the offset field is then patched at
  \<open>102 - 52 - 6 = 44\<close>, inside the new block, where the v2 value occupies the bytes 42
  to 49: in the destination the value is 1, 2, 102, 0, 0, 0, 7, 8.
\<close>

theorem signature_value_overwritten_counterexample:
  "parse_apk overlapping_apk =
     Inr (52, 74, drop 22 overlapping_apk, 22, [(0x7109871a, [1, 2, 3, 4, 5, 6, 7, 8])]) \<and>
   fst (inject_channel plain_lib (one_file ''a.apk'' overlapping_apk) ''a.apk'' ''b.apk''
          (PyStr ''x'')) = True \<and>
   map_option (\<lambda>f'. take 8 (drop 42 f'))
     (snd (inject_channel plain_lib (one_file ''a.apk'' overlapping_apk) ''a.apk'' ''b.apk''
            (PyStr ''x'')) ''b.apk'') = Some [1, 2, 102, 0, 0, 0, 7, 8] \<and>
   map_option (\<lambda>f'. find_id_values (take 80 (drop 22 f')))
     (snd (inject_channel plain_lib (one_file ''a.apk'' overlapping_apk) ''a.apk'' ''b.apk''
            (PyStr ''x'')) ''b.apk'') =
     Some (Inr [(0x7109871a, [1, 2, 102, 0, 0, 0, 7, 8]),
                (0x71777777,
                 [123, 34, 99, 104, 97, 110, 110, 101, 108, 34, 58, 32, 34, 120, 34, 125])])"
proof -
  note i = inject_one_file [OF parse_overlapping_apk new_block_overlapping_apk
      write_overlapping_apk(1), of "''a.apk''" "''b.apk''"]
  show ?thesis
    by (simp add: i parse_overlapping_apk write_overlapping_apk(2,3))
qed

end
